theory Spec2Isabelle
  imports Main
begin

section \<open>The socket channel handler (source/socket_channel_handler.c)\<close>

subsection \<open>Codes and enumerations\<close>

text \<open>
  Error codes are C ints whose numeric values live in headers outside the handler's
  source. The handler only compares them with each other and tests them against zero, so
  they are a datatype: \<open>AWS_ERROR_SUCCESS\<close> is the code 0, the four named codes are the
  ones the sources mention, and \<open>AWS_ERROR_OTHER n\<close> stands for every other non-zero code.
\<close>

datatype aws_error =
    AWS_ERROR_SUCCESS
  | AWS_IO_READ_WOULD_BLOCK
  | AWS_IO_SOCKET_CLOSED
  | AWS_IO_CHANNEL_ERROR_ERROR_CANT_ACCEPT_INPUT
  | AWS_ERROR_MALFORMED_INPUT_STRING
  | AWS_ERROR_OTHER nat

datatype aws_op = AWS_OP_SUCCESS | AWS_OP_ERR

datatype aws_task_status = AWS_TASK_STATUS_RUN_READY | AWS_TASK_STATUS_CANCELED

datatype aws_channel_direction = AWS_CHANNEL_DIR_READ | AWS_CHANNEL_DIR_WRITE

text \<open>The two functions the handler ever puts into the \<open>fn\<close> field of a task.\<close>

datatype task_fn = Fn_s_read_task | Fn_s_shutdown_task

subsection \<open>Messages, the handler and its collaborators\<close>

text \<open>
  An \<open>aws_io_message\<close>: its identity (the address), capacity and length of
  \<open>message_data\<close>, and the \<open>on_completion\<close> callback (\<open>None\<close> is the null pointer,
  \<open>Some c\<close> the callback \<open>c\<close>).
\<close>

record aws_io_message =
  message_id :: nat
  message_capacity :: nat
  message_len :: nat
  on_completion :: "nat option"

text \<open>
  What one call of \<open>aws_socket_read\<close> finds: \<open>Read_ok n\<close>, the socket holds \<open>n\<close>
  readable bytes and the call succeeds, or \<open>Read_fail e\<close>, the call fails and raises
  \<open>e\<close>.
\<close>

datatype read_outcome = Read_ok nat | Read_fail aws_error

text \<open>
  Every call the handler makes into the socket, the channel and the message callbacks is
  recorded, in order, with its arguments.
\<close>

datatype event =
    Ev_acquire_message nat nat
  | Ev_socket_read nat "aws_error + nat"
  | Ev_release_message nat
  | Ev_send_message nat nat aws_op
  | Ev_on_completion nat nat aws_error
  | Ev_channel_shutdown aws_error
  | Ev_schedule_task task_fn
  | Ev_socket_write nat
  | Ev_socket_shutdown
  | Ev_shutdown_complete aws_channel_direction aws_error bool

text \<open>
  \<open>struct socket_handler\<close>. The pointers \<open>socket\<close>, \<open>event_loop\<close> and \<open>slot\<close> never
  change after creation; what they point to is the environment part of \<open>world\<close> below.
  Sizes are \<open>size_t\<close>; they are natural numbers here, since no claim depends on a sum of
  buffer lengths exceeding the address space.
\<close>

record socket_handler =
  write_queue :: "aws_io_message list"
  max_rw_size :: nat
  shutdown_err_code :: aws_error
  shutdown_in_progress :: bool

text \<open>
  The handler together with the collaborators it calls, none of which is part of the
  handler's source: the slot's downstream read window, the socket (open or not, the
  outcomes of the coming \<open>aws_socket_read\<close> calls, the result of \<open>aws_socket_shutdown\<close>
  and of \<open>aws_socket_write\<close>), the results of the coming \<open>aws_channel_slot_send_message\<close>
  calls, of \<open>aws_channel_current_clock_time\<close>, of \<open>aws_channel_schedule_task\<close> and of
  \<open>aws_channel_slot_on_handler_shutdown_complete\<close>, the thread's last raised error, the
  message pool's next fresh message, and the record of calls made so far.
\<close>

record world = socket_handler +
  downstream_read_window :: nat
  socket_is_open :: bool
  socket_reads :: "read_outcome list"
  socket_shutdown_result :: aws_op
  socket_write_result :: aws_op
  send_results :: "aws_op list"
  clock_result :: aws_op
  schedule_result :: aws_op
  shutdown_complete_result :: aws_op
  last_error :: aws_error
  pool_next :: nat
  trace :: "event list"

definition emit :: "event \<Rightarrow> world \<Rightarrow> world" where
  "emit e w = w\<lparr>trace := trace w @ [e]\<rparr>"

text \<open>The events a call added: what \<open>w'\<close> has recorded beyond \<open>w\<close>.\<close>

definition new_events :: "world \<Rightarrow> world \<Rightarrow> event list" where
  "new_events w w' = drop (length (trace w)) (trace w')"

subsection \<open>The collaborators' contracts\<close>

text \<open>
  \<open>aws_raise_error\<close> of aws-c-common records the code as the thread's last error and
  returns \<open>AWS_OP_ERR\<close>; \<open>aws_last_error\<close> reads it back.
\<close>

definition aws_raise_error :: "aws_error \<Rightarrow> world \<Rightarrow> aws_op \<times> world" where
  "aws_raise_error e w = (AWS_OP_ERR, w\<lparr>last_error := e\<rparr>)"

definition aws_last_error :: "world \<Rightarrow> aws_error" where
  "aws_last_error w = last_error w"

text \<open>
  Modelled from the spec: \<open>acquire_message_from_pool(channel, kind, capacity) -> message\<close>
  hands out a fresh, empty message of the requested capacity with no completion callback.
\<close>

definition aws_channel_acquire_message_from_pool :: "nat \<Rightarrow> world \<Rightarrow> aws_io_message \<times> world" where
  "aws_channel_acquire_message_from_pool size_hint w =
     (\<lparr>message_id = pool_next w, message_capacity = size_hint, message_len = 0,
        on_completion = None\<rparr>,
      emit (Ev_acquire_message size_hint (pool_next w)) (w\<lparr>pool_next := Suc (pool_next w)\<rparr>))"

text \<open>Modelled from the spec: \<open>release_message_to_pool(channel, message)\<close>.\<close>

definition aws_channel_release_message_to_pool :: "aws_io_message \<Rightarrow> world \<Rightarrow> world" where
  "aws_channel_release_message_to_pool message w = emit (Ev_release_message (message_id message)) w"

text \<open>
  Modelled from the spec: non-blocking \<open>read(buffer) -> bytes_read | would-block | error\<close>.
  A successful read appends to the buffer as many of the socket's readable bytes as the
  buffer has room for and reports their number; a failing read raises its error code.
  A socket with no outcome left has nothing to deliver: the read would block.
\<close>

definition aws_socket_read ::
  "aws_io_message \<Rightarrow> world \<Rightarrow> (aws_error + aws_io_message \<times> nat) \<times> world" where
  "aws_socket_read message w =
     (case socket_reads w of
        [] \<Rightarrow>
          (Inl AWS_IO_READ_WOULD_BLOCK,
           emit (Ev_socket_read (message_id message) (Inl AWS_IO_READ_WOULD_BLOCK))
             (w\<lparr>last_error := AWS_IO_READ_WOULD_BLOCK\<rparr>))
      | Read_fail e # rest \<Rightarrow>
          (Inl e,
           emit (Ev_socket_read (message_id message) (Inl e))
             (w\<lparr>socket_reads := rest, last_error := e\<rparr>))
      | Read_ok n # rest \<Rightarrow>
          (let amount = min n (message_capacity message - message_len message) in
           (Inr (message\<lparr>message_len := message_len message + amount\<rparr>, amount),
            emit (Ev_socket_read (message_id message) (Inr amount))
              (w\<lparr>socket_reads := rest\<rparr>))))"

text \<open>
  Modelled from the spec: \<open>slot_send_message(slot, message, direction) -> ok | error\<close>,
  here always in the read direction. With no result left the call succeeds.
\<close>

definition aws_channel_slot_send_message :: "aws_io_message \<Rightarrow> world \<Rightarrow> aws_op \<times> world" where
  "aws_channel_slot_send_message message w =
     (case send_results w of
        [] \<Rightarrow> (AWS_OP_SUCCESS,
               emit (Ev_send_message (message_id message) (message_len message) AWS_OP_SUCCESS) w)
      | r # rest \<Rightarrow>
          (r, emit (Ev_send_message (message_id message) (message_len message) r)
                (w\<lparr>send_results := rest\<rparr>)))"

text \<open>Modelled from the spec: \<open>slot_downstream_read_window(slot) -> size\<close>.\<close>

definition aws_channel_slot_downstream_read_window :: "world \<Rightarrow> nat" where
  "aws_channel_slot_downstream_read_window w = downstream_read_window w"

text \<open>
  Modelled from the spec: \<open>channel_shutdown(channel, error_code)\<close> asks the channel to
  shut down; the channel runs the handlers' shutdown later, not inside this call.
\<close>

definition aws_channel_shutdown :: "aws_error \<Rightarrow> world \<Rightarrow> world" where
  "aws_channel_shutdown error_code w = emit (Ev_channel_shutdown error_code) w"

text \<open>Modelled from the spec: \<open>current_clock_time() -> time | error\<close>.\<close>

definition aws_channel_current_clock_time :: "world \<Rightarrow> aws_op" where
  "aws_channel_current_clock_time w = clock_result w"

text \<open>Modelled from the spec: \<open>schedule_task(task, due_time)\<close>.\<close>

definition aws_channel_schedule_task :: "task_fn \<Rightarrow> world \<Rightarrow> aws_op \<times> world" where
  "aws_channel_schedule_task fn w = (schedule_result w, emit (Ev_schedule_task fn) w)"

text \<open>Modelled from the spec: \<open>is_open() -> bool\<close> and \<open>shutdown()\<close> of the socket.\<close>

definition aws_socket_is_open :: "world \<Rightarrow> bool" where
  "aws_socket_is_open w = socket_is_open w"

definition aws_socket_shutdown :: "world \<Rightarrow> aws_op \<times> world" where
  "aws_socket_shutdown w =
     (socket_shutdown_result w,
      emit Ev_socket_shutdown
        (if socket_shutdown_result w = AWS_OP_SUCCESS then w\<lparr>socket_is_open := False\<rparr> else w))"

text \<open>
  Modelled from the spec: \<open>write(bytes, completion_callback) -> accepted | error\<close>; the
  completion is delivered later, by a call of \<open>s_on_socket_write_complete\<close>.
\<close>

definition aws_socket_write :: "aws_io_message \<Rightarrow> world \<Rightarrow> aws_op \<times> world" where
  "aws_socket_write message w = (socket_write_result w, emit (Ev_socket_write (message_id message)) w)"

text \<open>
  Modelled from the spec:
  \<open>slot_on_handler_shutdown_complete(slot, direction, error_code, abort)\<close>.
\<close>

definition aws_channel_slot_on_handler_shutdown_complete ::
  "aws_channel_direction \<Rightarrow> aws_error \<Rightarrow> bool \<Rightarrow> world \<Rightarrow> aws_op \<times> world" where
  "aws_channel_slot_on_handler_shutdown_complete dir err_code abort w =
     (shutdown_complete_result w, emit (Ev_shutdown_complete dir err_code abort) w)"

text \<open>A message's completion callback, when it has one, called with an error code.\<close>

definition call_on_completion :: "aws_io_message \<Rightarrow> aws_error \<Rightarrow> world \<Rightarrow> world" where
  "call_on_completion message error_code w =
     (case on_completion message of
        None \<Rightarrow> w
      | Some cb \<Rightarrow> emit (Ev_on_completion cb (message_id message) error_code) w)"

subsection \<open>The handler's functions\<close>

text \<open>
  A call either returns or stops the process: \<open>assert(0)\<close> aborts when assertions are
  compiled in and is nothing under \<open>NDEBUG\<close>.
\<close>

datatype 'a call_result = Returned 'a | Aborted

definition s_socket_process_read_message ::
  "bool \<Rightarrow> aws_io_message \<Rightarrow> world \<Rightarrow> (aws_op \<times> world) call_result" where
  "s_socket_process_read_message ndebug message w =
     (if \<not> ndebug then Aborted
      else Returned (aws_raise_error AWS_IO_CHANNEL_ERROR_ERROR_CANT_ACCEPT_INPUT w))"

definition s_on_socket_write_complete ::
  "aws_error \<Rightarrow> aws_io_message option \<Rightarrow> world \<Rightarrow> world" where
  "s_on_socket_write_complete error_code user_data w =
     (case user_data of
        None \<Rightarrow> w
      | Some message \<Rightarrow>
          (let w1 = call_on_completion message error_code w;
               w2 = aws_channel_release_message_to_pool message w1
           in if error_code \<noteq> AWS_ERROR_SUCCESS then aws_channel_shutdown error_code w2 else w2))"

definition s_socket_process_write_message :: "aws_io_message \<Rightarrow> world \<Rightarrow> aws_op \<times> world" where
  "s_socket_process_write_message message w =
     (case aws_socket_write message w of
        (AWS_OP_ERR, w1) \<Rightarrow> (AWS_OP_ERR, w1)
      | (AWS_OP_SUCCESS, w1) \<Rightarrow> (AWS_OP_SUCCESS, w1))"

text \<open>
  The \<open>while (total_read < max_to_read)\<close> loop of \<open>s_do_read\<close>. It is left in three ways:
  the loop condition fails, the \<open>break\<close> after a failed read, or the \<open>return\<close> after a
  failed \<open>aws_channel_slot_send_message\<close> (which leaves \<open>s_do_read\<close> altogether). The
  result carries \<open>total_read\<close> as it stands at that point.
\<close>

datatype loop_exit = Loop_condition_false | Loop_break | Loop_return

lemma aws_channel_acquire_message_from_pool_reads:
  "socket_reads (snd (aws_channel_acquire_message_from_pool n w)) = socket_reads w"
  by (simp add: aws_channel_acquire_message_from_pool_def emit_def)

lemma aws_socket_read_consumes:
  "aws_socket_read m w = (Inr x, w') \<Longrightarrow> length (socket_reads w') < length (socket_reads w)"
  by (auto simp: aws_socket_read_def emit_def Let_def split: list.splits read_outcome.splits)

lemma aws_channel_slot_send_message_reads:
  "socket_reads (snd (aws_channel_slot_send_message m w)) = socket_reads w"
  by (simp add: aws_channel_slot_send_message_def emit_def split: list.splits)

function s_do_read_loop :: "nat \<Rightarrow> nat \<Rightarrow> world \<Rightarrow> loop_exit \<times> nat \<times> world" where
  "s_do_read_loop max_to_read total_read w =
     (if total_read < max_to_read then
        (case aws_channel_acquire_message_from_pool max_to_read w of
           (message, w1) \<Rightarrow>
             (case aws_socket_read message w1 of
                (Inl e, w2) \<Rightarrow>
                  (Loop_break, total_read, aws_channel_release_message_to_pool message w2)
              | (Inr (message', read), w2) \<Rightarrow>
                  (case aws_channel_slot_send_message message' w2 of
                     (AWS_OP_ERR, w3) \<Rightarrow>
                       (Loop_return, total_read + read,
                        aws_channel_release_message_to_pool message' w3)
                   | (AWS_OP_SUCCESS, w3) \<Rightarrow>
                       s_do_read_loop max_to_read (total_read + read) w3)))
      else (Loop_condition_false, total_read, w))"
  by pat_completeness auto
termination
proof (relation "measure (\<lambda>(max_to_read, total_read, w). length (socket_reads w))", goal_cases)
  case 1
  show ?case by simp
next
  case prems: (2 max_to_read total_read w message w1 r w2 b message' read rc w3)
  have "socket_reads w1 = socket_reads w"
    using aws_channel_acquire_message_from_pool_reads [of max_to_read w] prems(2)
    by (metis snd_conv)
  moreover have "length (socket_reads w2) < length (socket_reads w1)"
    using aws_socket_read_consumes [of message w1 b w2] prems(3,4) by simp
  moreover have "socket_reads w3 = socket_reads w2"
    using aws_channel_slot_send_message_reads [of message' w2] prems(6) by (metis snd_conv)
  ultimately show ?case by simp
qed

definition s_do_read :: "world \<Rightarrow> world" where
  "s_do_read w =
     (let downstream_window = aws_channel_slot_downstream_read_window w;
          max_to_read =
            (if downstream_window > max_rw_size w then max_rw_size w else downstream_window)
      in if max_to_read \<noteq> 0 then
           (case s_do_read_loop max_to_read 0 w of
              (Loop_return, total_read, w1) \<Rightarrow> w1
            | (_, total_read, w1) \<Rightarrow>
                (let last_error = aws_last_error w1 in
                 if total_read < max_to_read then
                   (if last_error \<noteq> AWS_IO_READ_WOULD_BLOCK \<and> \<not> shutdown_in_progress w1
                    then aws_channel_shutdown last_error w1
                    else w1)
                 else if \<not> shutdown_in_progress w1 \<and> total_read = max_rw_size w1 then
                   (if aws_channel_current_clock_time w1 = AWS_OP_SUCCESS
                    then snd (aws_channel_schedule_task Fn_s_read_task w1)
                    else w1)
                 else w1))
         else w)"

definition s_on_readable_notification :: "aws_error \<Rightarrow> world \<Rightarrow> world" where
  "s_on_readable_notification error_code w =
     (if error_code = AWS_ERROR_SUCCESS then s_do_read w
      else if \<not> shutdown_in_progress w then aws_channel_shutdown error_code w
      else w)"

definition s_read_task :: "aws_task_status \<Rightarrow> world \<Rightarrow> world" where
  "s_read_task status w = (if status = AWS_TASK_STATUS_RUN_READY then s_do_read w else w)"

definition socket_increment_read_window :: "nat \<Rightarrow> world \<Rightarrow> aws_op \<times> world" where
  "socket_increment_read_window size_arg w =
     (if \<not> shutdown_in_progress w then
        (if aws_channel_current_clock_time w = AWS_OP_SUCCESS
         then aws_channel_schedule_task Fn_s_read_task w
         else (AWS_OP_ERR, w))
      else (AWS_OP_SUCCESS, w))"

definition s_shutdown_task :: "aws_task_status \<Rightarrow> world \<Rightarrow> world" where
  "s_shutdown_task status w =
     snd (aws_channel_slot_on_handler_shutdown_complete AWS_CHANNEL_DIR_WRITE
            (shutdown_err_code w) False w)"

text \<open>
  The \<open>while (!aws_linked_list_empty(&write_queue))\<close> loop of \<open>s_socket_shutdown\<close>: pop the
  front message, call its completion callback (when it has one) with
  \<open>AWS_IO_SOCKET_CLOSED\<close>, release it.
\<close>

function s_socket_shutdown_drain :: "world \<Rightarrow> world" where
  "s_socket_shutdown_drain w =
     (case write_queue w of
        [] \<Rightarrow> w
      | message # rest \<Rightarrow>
          (let w1 = w\<lparr>write_queue := rest\<rparr>;
               w2 = call_on_completion message AWS_IO_SOCKET_CLOSED w1;
               w3 = aws_channel_release_message_to_pool message w2
           in s_socket_shutdown_drain w3))"
  by pat_completeness auto
termination
  by (relation "measure (\<lambda>w. length (write_queue w))")
     (auto simp: call_on_completion_def aws_channel_release_message_to_pool_def emit_def
           split: option.splits)

definition s_socket_shutdown ::
  "aws_channel_direction \<Rightarrow> aws_error \<Rightarrow> bool \<Rightarrow> world \<Rightarrow> aws_op \<times> world" where
  "s_socket_shutdown dir error_code abort w =
     (let w0 = w\<lparr>shutdown_in_progress := True\<rparr> in
      if dir = AWS_CHANNEL_DIR_READ then
        (if abort \<and> aws_socket_is_open w0 then
           (case aws_socket_shutdown w0 of
              (AWS_OP_ERR, w1) \<Rightarrow> (AWS_OP_ERR, w1)
            | (AWS_OP_SUCCESS, w1) \<Rightarrow>
                aws_channel_slot_on_handler_shutdown_complete dir error_code abort w1)
         else aws_channel_slot_on_handler_shutdown_complete dir error_code abort w0)
      else
        (let w1 = s_socket_shutdown_drain w0;
             w2 = (if aws_socket_is_open w1 then snd (aws_socket_shutdown w1) else w1)
         in if aws_channel_current_clock_time w2 \<noteq> AWS_OP_SUCCESS then (AWS_OP_ERR, w2)
            else aws_channel_schedule_task Fn_s_shutdown_task
                   (w2\<lparr>shutdown_err_code := error_code\<rparr>)))"

text \<open>
  The value of the local \<open>max_to_read\<close> of \<open>s_do_read\<close>: the smaller of the downstream
  read window and \<open>max_rw_size\<close>.
\<close>

definition max_to_read :: "world \<Rightarrow> nat" where
  "max_to_read w =
     (if aws_channel_slot_downstream_read_window w > max_rw_size w then max_rw_size w
      else aws_channel_slot_downstream_read_window w)"

subsection \<open>Reading a record of calls\<close>

text \<open>The bytes the socket delivered, summed over the successful reads.\<close>

primrec bytes_read :: "event list \<Rightarrow> nat" where
  "bytes_read [] = 0"
| "bytes_read (e # evs) =
     (case e of Ev_socket_read m (Inr n) \<Rightarrow> n | _ \<Rightarrow> 0) + bytes_read evs"

text \<open>The bytes handed upstream by successful \<open>aws_channel_slot_send_message\<close> calls.\<close>

primrec bytes_forwarded :: "event list \<Rightarrow> nat" where
  "bytes_forwarded [] = 0"
| "bytes_forwarded (e # evs) =
     (case e of Ev_send_message m n AWS_OP_SUCCESS \<Rightarrow> n | _ \<Rightarrow> 0) + bytes_forwarded evs"

text \<open>The capacities asked of the pool, in order.\<close>

primrec acquired_sizes :: "event list \<Rightarrow> nat list" where
  "acquired_sizes [] = []"
| "acquired_sizes (e # evs) =
     (case e of Ev_acquire_message n m \<Rightarrow> [n] | _ \<Rightarrow> []) @ acquired_sizes evs"

text \<open>Whether some \<open>aws_channel_slot_send_message\<close> call failed.\<close>

primrec send_failed :: "event list \<Rightarrow> bool" where
  "send_failed [] = False"
| "send_failed (e # evs) =
     ((case e of Ev_send_message m n AWS_OP_ERR \<Rightarrow> True | _ \<Rightarrow> False) \<or> send_failed evs)"

text \<open>The codes of the \<open>aws_channel_shutdown\<close> calls, and the tasks scheduled, in order.\<close>

primrec shutdown_codes :: "event list \<Rightarrow> aws_error list" where
  "shutdown_codes [] = []"
| "shutdown_codes (e # evs) =
     (case e of Ev_channel_shutdown c \<Rightarrow> [c] | _ \<Rightarrow> []) @ shutdown_codes evs"

primrec scheduled_tasks :: "event list \<Rightarrow> task_fn list" where
  "scheduled_tasks [] = []"
| "scheduled_tasks (e # evs) =
     (case e of Ev_schedule_task f \<Rightarrow> [f] | _ \<Rightarrow> []) @ scheduled_tasks evs"

text \<open>The shutdown-complete reports made to the slot, in order.\<close>

primrec shutdown_completes :: "event list \<Rightarrow> (aws_channel_direction \<times> aws_error \<times> bool) list" where
  "shutdown_completes [] = []"
| "shutdown_completes (e # evs) =
     (case e of Ev_shutdown_complete d c a \<Rightarrow> [(d, c, a)] | _ \<Rightarrow> []) @ shutdown_completes evs"

text \<open>
  What draining one queued message at shutdown records: its completion callback, when it
  has one, called with \<open>AWS_IO_SOCKET_CLOSED\<close>, then its release.
\<close>

definition drained :: "aws_io_message \<Rightarrow> event list" where
  "drained message =
     (case on_completion message of
        None \<Rightarrow> []
      | Some cb \<Rightarrow> [Ev_on_completion cb (message_id message) AWS_IO_SOCKET_CLOSED])
     @ [Ev_release_message (message_id message)]"

subsection \<open>Concrete handlers and messages\<close>

text \<open>
  A fresh handler with \<open>max_rw_size = 10\<close> on an open socket with nothing to read, a
  downstream window of 100, and collaborators that all succeed.
\<close>

definition world0 :: world where
  "world0 =
     \<lparr>write_queue = [], max_rw_size = 10, shutdown_err_code = AWS_ERROR_SUCCESS,
      shutdown_in_progress = False, downstream_read_window = 100, socket_is_open = True,
      socket_reads = [], socket_shutdown_result = AWS_OP_SUCCESS,
      socket_write_result = AWS_OP_SUCCESS, send_results = [],
      clock_result = AWS_OP_SUCCESS, schedule_result = AWS_OP_SUCCESS,
      shutdown_complete_result = AWS_OP_SUCCESS, last_error = AWS_ERROR_SUCCESS,
      pool_next = 0, trace = []\<rparr>"

text \<open>Two messages: one with a completion callback, one without.\<close>

definition msg_a :: aws_io_message where
  "msg_a = \<lparr>message_id = 100, message_capacity = 16, message_len = 16, on_completion = Some 7\<rparr>"

definition msg_b :: aws_io_message where
  "msg_b = \<lparr>message_id = 101, message_capacity = 8, message_len = 8, on_completion = None\<rparr>"

subsection \<open>Sequences of calls into the handler\<close>

text \<open>
  What can happen to a handler on its event loop thread, one thing at a time: the socket
  and the channel call its functions, a task it scheduled runs (or is cancelled), more
  data reaches the socket, the downstream window changes. The read-message entry is not
  among them: the pipeline never calls it on this handler, and a call changes no state.
\<close>

datatype handler_call =
    On_readable_notification aws_error
  | Read_task aws_task_status
  | Increment_read_window nat
  | On_socket_write_complete aws_error "aws_io_message option"
  | Process_write_message aws_io_message
  | Shutdown aws_channel_direction aws_error bool
  | Shutdown_task aws_task_status
  | Socket_receives "read_outcome list"
  | Window_becomes nat

fun handler_step :: "handler_call \<Rightarrow> world \<Rightarrow> world" where
  "handler_step (On_readable_notification e) w = s_on_readable_notification e w"
| "handler_step (Read_task st) w = s_read_task st w"
| "handler_step (Increment_read_window n) w = snd (socket_increment_read_window n w)"
| "handler_step (On_socket_write_complete e m) w = s_on_socket_write_complete e m w"
| "handler_step (Process_write_message m) w = snd (s_socket_process_write_message m w)"
| "handler_step (Shutdown d e a) w = snd (s_socket_shutdown d e a w)"
| "handler_step (Shutdown_task st) w = s_shutdown_task st w"
| "handler_step (Socket_receives rs) w = w\<lparr>socket_reads := socket_reads w @ rs\<rparr>"
| "handler_step (Window_becomes n) w = w\<lparr>downstream_read_window := n\<rparr>"

fun run :: "handler_call list \<Rightarrow> world \<Rightarrow> world" where
  "run [] w = w"
| "run (c # cs) w = run cs (handler_step c w)"

text \<open>The non-zero error codes of the write completions among the calls, in order.\<close>

primrec write_failures :: "handler_call list \<Rightarrow> aws_error list" where
  "write_failures [] = []"
| "write_failures (c # cs) =
     (case c of
        On_socket_write_complete e (Some m) \<Rightarrow> (if e \<noteq> AWS_ERROR_SUCCESS then [e] else [])
      | _ \<Rightarrow> [])
     @ write_failures cs"

subsection \<open>Predicates used in the proofs about the read loop\<close>

text \<open>The handler part and the collaborators' fixed answers, which the read loop never touches.\<close>

definition same_handler :: "world \<Rightarrow> world \<Rightarrow> bool" where
  "same_handler w w' \<longleftrightarrow>
     write_queue w' = write_queue w \<and> max_rw_size w' = max_rw_size w \<and>
     shutdown_err_code w' = shutdown_err_code w \<and>
     shutdown_in_progress w' = shutdown_in_progress w \<and>
     downstream_read_window w' = downstream_read_window w \<and>
     socket_is_open w' = socket_is_open w \<and>
     clock_result w' = clock_result w \<and> schedule_result w' = schedule_result w \<and>
     socket_shutdown_result w' = socket_shutdown_result w \<and>
     socket_write_result w' = socket_write_result w \<and>
     shutdown_complete_result w' = shutdown_complete_result w"

text \<open>
  What the events \<open>evs\<close> of one run of the read loop look like, when the loop was entered
  with \<open>total_read = t\<close>, left by \<open>ex\<close> with \<open>total_read = t'\<close>, and the thread's last
  error is \<open>err\<close> afterwards.
\<close>

definition loop_events ::
  "nat \<Rightarrow> nat \<Rightarrow> loop_exit \<Rightarrow> nat \<Rightarrow> aws_error \<Rightarrow> event list \<Rightarrow> bool" where
  "loop_events mx t ex t' err evs \<longleftrightarrow>
     t' = t + bytes_read evs \<and> send_failed evs = (ex = Loop_return) \<and>
     shutdown_codes evs = [] \<and> scheduled_tasks evs = [] \<and> shutdown_completes evs = [] \<and>
     set (acquired_sizes evs) \<subseteq> {mx} \<and>
     (ex = Loop_condition_false \<longrightarrow> mx \<le> t') \<and>
     (ex = Loop_break \<longrightarrow> t' < mx \<and>
        (\<exists>pre m. evs = pre @ [Ev_socket_read m (Inl err), Ev_release_message m]))"

subsection \<open>Concrete situations\<close>

text \<open>
  The socket delivers 4 bytes to the first read of a pass and, more data having arrived,
  10 bytes to the second; \<open>max_rw_size\<close> is 10 and the downstream window 100.
\<close>

definition world_short_then_full :: world where
  "world_short_then_full = world0\<lparr>socket_reads := [Read_ok 4, Read_ok 10]\<rparr>"

text \<open>A downstream window of 5, below \<open>max_rw_size = 10\<close>, and 5 bytes to read.\<close>

definition world_small_window :: world where
  "world_small_window = world0\<lparr>downstream_read_window := 5, socket_reads := [Read_ok 5]\<rparr>"

text \<open>Exactly \<open>max_rw_size = 10\<close> bytes to read, the window being 100.\<close>

definition world_full_chunk :: world where
  "world_full_chunk = world0\<lparr>socket_reads := [Read_ok 10]\<rparr>"

text \<open>3 bytes to read, then a read that fails with an error other than would-block.\<close>

definition world_read_error :: world where
  "world_read_error = world0\<lparr>socket_reads := [Read_ok 3, Read_fail (AWS_ERROR_OTHER 5)]\<rparr>"

text \<open>Two messages queued for writing; in the second world the channel clock fails.\<close>

definition world_queued :: world where
  "world_queued = world0\<lparr>write_queue := [msg_a, msg_b]\<rparr>"

definition world_queued_no_clock :: world where
  "world_queued_no_clock = world0\<lparr>write_queue := [msg_a, msg_b], clock_result := AWS_OP_ERR\<rparr>"

text \<open>A socket whose \<open>aws_socket_shutdown\<close> fails.\<close>

definition world_close_fails :: world where
  "world_close_fails = world0\<lparr>socket_shutdown_result := AWS_OP_ERR\<rparr>"

text \<open>
  A handler that is already shutting down, on a socket that would deliver a full chunk
  and then fail; and a sequence of calls that reads, raises the window, runs the read
  task and reports a socket error.
\<close>

definition world_shutting_down :: world where
  "world_shutting_down =
     world0\<lparr>shutdown_in_progress := True,
            socket_reads := [Read_ok 10, Read_fail AWS_IO_SOCKET_CLOSED]\<rparr>"

definition calls_while_shutting_down :: "handler_call list" where
  "calls_while_shutting_down =
     [On_readable_notification AWS_ERROR_SUCCESS, Increment_read_window 1,
      Read_task AWS_TASK_STATUS_RUN_READY, On_readable_notification AWS_IO_SOCKET_CLOSED]"

section \<open>The URI parser (source/uri.c)\<close>

subsection \<open>Memory, buffers and cursors\<close>

text \<open>
  A pointer held by a URI: null, into the block of \<open>uri_str\<close> at an offset, or into the
  static string \<open>s_default_path\<close>.
\<close>

datatype pointer = Null | In_uri_str nat | In_default_path nat

record aws_byte_cursor =
  len :: nat
  ptr :: pointer

text \<open>
  \<open>struct aws_byte_buf\<close>. \<open>buffer\<close> is \<open>None\<close> for the null pointer and \<open>Some bs\<close> for
  a block of the allocator that holds the bytes \<open>bs\<close>; \<open>buf_allocator\<close> is the allocator
  pointer (\<open>None\<close> for null).
\<close>

record aws_byte_buf =
  buf_len :: nat
  buffer :: "string option"
  capacity :: nat
  buf_allocator :: "nat option"

text \<open>
  \<open>struct aws_uri\<close>, with the fields \<open>uri.c\<close> reads and writes. \<open>port\<close> is a
  \<open>uint16_t\<close>.
\<close>

record aws_uri =
  self_size :: nat
  allocator :: "nat option"
  uri_str :: aws_byte_buf
  scheme :: aws_byte_cursor
  authority :: aws_byte_cursor
  host_name :: aws_byte_cursor
  port :: nat
  path :: aws_byte_cursor
  query_string :: aws_byte_cursor
  path_and_query :: aws_byte_cursor

text \<open>
  What the parser's surroundings provide: how many blocks of the allocator are live,
  whether the next \<open>aws_mem_acquire\<close> succeeds, the byte that lies right behind the block
  of \<open>uri_str\<close> (the parser can read it, see \<open>s_parse_scheme\<close>), and the thread's last
  raised error.
\<close>

record uri_env =
  live_blocks :: nat
  acquire_succeeds :: bool
  byte_past_block :: char
  raised_error :: aws_error

definition zero_cursor :: aws_byte_cursor where
  "zero_cursor = \<lparr>len = 0, ptr = Null\<rparr>"

definition zero_buf :: aws_byte_buf where
  "zero_buf = \<lparr>buf_len = 0, buffer = None, capacity = 0, buf_allocator = None\<rparr>"

text \<open>\<open>AWS_ZERO_STRUCT(*uri)\<close>: every field zero.\<close>

definition zero_uri :: aws_uri where
  "zero_uri =
     \<lparr>self_size = 0, allocator = None, uri_str = zero_buf, scheme = zero_cursor,
      authority = zero_cursor, host_name = zero_cursor, port = 0, path = zero_cursor,
      query_string = zero_cursor, path_and_query = zero_cursor\<rparr>"

text \<open>
  aws-c-common's \<open>aws_byte_buf_init_copy_from_cursor\<close>: the destination is zeroed; for a
  non-empty source a block of its length is acquired (the call fails when the allocator
  does) and the bytes are copied.
\<close>

definition aws_byte_buf_init_copy_from_cursor ::
  "nat option \<Rightarrow> string \<Rightarrow> uri_env \<Rightarrow> aws_op \<times> aws_byte_buf \<times> uri_env" where
  "aws_byte_buf_init_copy_from_cursor alloc src e =
     (if src = [] then
        (AWS_OP_SUCCESS, zero_buf\<lparr>buf_allocator := alloc\<rparr>, e)
      else if \<not> acquire_succeeds e then (AWS_OP_ERR, zero_buf, e)
      else
        (AWS_OP_SUCCESS,
         \<lparr>buf_len = length src, buffer = Some src, capacity = length src, buf_allocator = alloc\<rparr>,
         e\<lparr>live_blocks := Suc (live_blocks e)\<rparr>))"

text \<open>
  aws-c-common's \<open>aws_byte_buf_clean_up\<close>: the block, if the buffer has one and an
  allocator, goes back to the allocator, and the buffer is zeroed.
\<close>

definition aws_byte_buf_clean_up :: "aws_byte_buf \<Rightarrow> uri_env \<Rightarrow> aws_byte_buf \<times> uri_env" where
  "aws_byte_buf_clean_up buf e =
     (zero_buf,
      if buf_allocator buf \<noteq> None \<and> buffer buf \<noteq> None
      then e\<lparr>live_blocks := live_blocks e - 1\<rparr> else e)"

definition aws_byte_cursor_from_buf :: "aws_byte_buf \<Rightarrow> aws_byte_cursor" where
  "aws_byte_cursor_from_buf buf =
     \<lparr>len = buf_len buf, ptr = (case buffer buf of None \<Rightarrow> Null | Some bs \<Rightarrow> In_uri_str 0)\<rparr>"

definition ptr_add :: "pointer \<Rightarrow> nat \<Rightarrow> pointer" where
  "ptr_add p n =
     (case p of
        Null \<Rightarrow> Null
      | In_uri_str off \<Rightarrow> In_uri_str (off + n)
      | In_default_path off \<Rightarrow> In_default_path (off + n))"

text \<open>
  aws-c-common's \<open>aws_byte_cursor_advance\<close>: the first \<open>n\<close> bytes as a cursor of their
  own, and the cursor moved behind them; asked for more than the cursor has, it returns
  the zero cursor and moves nothing.
\<close>

definition aws_byte_cursor_advance ::
  "aws_byte_cursor \<Rightarrow> nat \<Rightarrow> aws_byte_cursor \<times> aws_byte_cursor" where
  "aws_byte_cursor_advance cursor n =
     (if n > len cursor then (zero_cursor, cursor)
      else (\<lparr>len = n, ptr = ptr cursor\<rparr>,
            \<lparr>len = len cursor - n, ptr = ptr_add (ptr cursor) n\<rparr>))"

text \<open>
  The byte at \<open>p[i]\<close>. Inside the block of \<open>uri_str\<close> it is the block's byte; right
  behind the block it is whatever the surroundings hold there.
\<close>

definition load :: "aws_uri \<Rightarrow> uri_env \<Rightarrow> pointer \<Rightarrow> nat \<Rightarrow> char" where
  "load u e p i =
     (case p of
        In_uri_str off \<Rightarrow>
          (case buffer (uri_str u) of
             Some bs \<Rightarrow> if off + i < length bs then bs ! (off + i) else byte_past_block e
           | None \<Rightarrow> byte_past_block e)
      | In_default_path off \<Rightarrow> if off + i = 0 then CHR ''/'' else CHR 0x00
      | Null \<Rightarrow> byte_past_block e)"

text \<open>The bytes a cursor spans.\<close>

definition cursor_bytes :: "aws_uri \<Rightarrow> uri_env \<Rightarrow> aws_byte_cursor \<Rightarrow> string" where
  "cursor_bytes u e c = map (load u e (ptr c)) [0 ..< len c]"

text \<open>\<open>memchr\<close>: the index of the first occurrence, \<open>None\<close> for the null result.\<close>

fun find_char :: "char \<Rightarrow> string \<Rightarrow> nat option" where
  "find_char c [] = None"
| "find_char c (x # xs) = (if x = c then Some 0 else map_option Suc (find_char c xs))"

definition memchr :: "aws_uri \<Rightarrow> uri_env \<Rightarrow> aws_byte_cursor \<Rightarrow> char \<Rightarrow> nat option" where
  "memchr u e c ch = find_char ch (cursor_bytes u e c)"

definition isdigit :: "char \<Rightarrow> bool" where
  "isdigit c \<longleftrightarrow> c \<in> set ''0123456789''"

text \<open>\<open>atoi\<close> on a string of decimal digits.\<close>

definition atoi :: "string \<Rightarrow> nat" where
  "atoi ds = foldl (\<lambda>a c. 10 * a + (of_char c - of_char CHR ''0'')) 0 ds"

subsection \<open>The parser\<close>

datatype parser_state = ON_SCHEME | ON_AUTHORITY | ON_PATH | ON_QUERY_STRING | FINISHED | ERROR

text \<open>The enumerators' values, for \<open>parser.state < FINISHED\<close>.\<close>

fun state_value :: "parser_state \<Rightarrow> nat" where
  "state_value ON_SCHEME = 0"
| "state_value ON_AUTHORITY = 1"
| "state_value ON_PATH = 2"
| "state_value ON_QUERY_STRING = 3"
| "state_value FINISHED = 4"
| "state_value ERROR = 5"

text \<open>
  \<open>struct uri_parser\<close> (the URI it points to and the state), together with the cursor
  \<open>uri_cur\<close> that every state function advances and the surroundings.
\<close>

record uri_parser =
  uri :: aws_uri
  state :: parser_state
  str :: aws_byte_cursor
  env :: uri_env

definition uri_raise_error :: "aws_error \<Rightarrow> uri_parser \<Rightarrow> uri_parser" where
  "uri_raise_error err p = p\<lparr>env := (env p)\<lparr>raised_error := err\<rparr>\<rparr>"

definition UINT16_MAX :: nat where
  "UINT16_MAX = 65535"

definition s_parse_scheme :: "uri_parser \<Rightarrow> uri_parser" where
  "s_parse_scheme p =
     (case memchr (uri p) (env p) (str p) CHR '':'' of
        None \<Rightarrow> p\<lparr>state := ON_AUTHORITY\<rparr>
      | Some location_of_colon \<Rightarrow>
          if location_of_colon < len (str p)
             \<and> load (uri p) (env p) (ptr (str p)) (location_of_colon + 1) \<noteq> CHR ''/''
          then p\<lparr>state := ON_AUTHORITY\<rparr>
          else
            (let scheme_len = location_of_colon;
                 (sch, str1) = aws_byte_cursor_advance (str p) scheme_len;
                 p1 = p\<lparr>uri := (uri p)\<lparr>scheme := sch\<rparr>, str := str1\<rparr>
             in if len str1 < 3
                   \<or> load (uri p1) (env p1) (ptr str1) 0 \<noteq> CHR '':''
                   \<or> load (uri p1) (env p1) (ptr str1) 1 \<noteq> CHR ''/''
                   \<or> load (uri p1) (env p1) (ptr str1) 2 \<noteq> CHR ''/''
                then (uri_raise_error AWS_ERROR_MALFORMED_INPUT_STRING p1)\<lparr>state := ERROR\<rparr>
                else p1\<lparr>str := snd (aws_byte_cursor_advance str1 3), state := ON_AUTHORITY\<rparr>))"

text \<open>
  The second half of \<open>s_parse_authority\<close>: host name and port out of the authority that
  the first half stored.
\<close>

definition s_parse_authority_port :: "uri_parser \<Rightarrow> uri_parser" where
  "s_parse_authority_port p =
     (let authority_parse_csr = authority (uri p) in
      if len authority_parse_csr \<noteq> 0 then
        (case memchr (uri p) (env p) authority_parse_csr CHR '':'' of
           None \<Rightarrow> p\<lparr>uri := (uri p)\<lparr>port := 0, host_name := authority (uri p)\<rparr>\<rparr>
         | Some port_delim \<Rightarrow>
             (let p1 = p\<lparr>uri := (uri p)\<lparr>host_name :=
                          \<lparr>len = port_delim, ptr = ptr authority_parse_csr\<rparr>\<rparr>\<rparr>;
                  port_len = len (authority (uri p1)) - len (host_name (uri p1)) - 1;
                  port_bytes =
                    map (load (uri p1) (env p1) (ptr_add (ptr authority_parse_csr) (port_delim + 1)))
                      [0 ..< port_len]
              in if \<not> list_all isdigit port_bytes
                 then uri_raise_error AWS_ERROR_MALFORMED_INPUT_STRING (p1\<lparr>state := ERROR\<rparr>)
                 else if port_len > 5
                 then uri_raise_error AWS_ERROR_MALFORMED_INPUT_STRING (p1\<lparr>state := ERROR\<rparr>)
                 else
                   (let port_int = atoi port_bytes in
                    if port_int > UINT16_MAX
                    then uri_raise_error AWS_ERROR_MALFORMED_INPUT_STRING (p1\<lparr>state := ERROR\<rparr>)
                    else p1\<lparr>uri := (uri p1)\<lparr>port := port_int\<rparr>\<rparr>)))
      else p)"

definition s_parse_authority :: "uri_parser \<Rightarrow> uri_parser" where
  "s_parse_authority p =
     (let location_of_slash = memchr (uri p) (env p) (str p) CHR ''/'';
          location_of_qmark = memchr (uri p) (env p) (str p) CHR ''?''
      in if location_of_slash = None \<and> location_of_qmark = None \<and> len (str p) \<noteq> 0 then
           (let u1 = (uri p)\<lparr>authority := \<lparr>len = len (str p), ptr = ptr (str p)\<rparr>,
                              path := \<lparr>len = 1, ptr = In_default_path 0\<rparr>\<rparr>;
                u2 = u1\<lparr>path_and_query := path u1\<rparr>
            in s_parse_authority_port
                 (p\<lparr>uri := u2, state := FINISHED,
                    str := snd (aws_byte_cursor_advance (str p) (len (authority u2)))\<rparr>))
         else if len (str p) = 0 then
           uri_raise_error AWS_ERROR_MALFORMED_INPUT_STRING (p\<lparr>state := ERROR\<rparr>)
         else
           (let (st, end_off) =
                  (case location_of_slash of
                     Some i \<Rightarrow> (ON_PATH, i)
                   | None \<Rightarrow>
                       (case location_of_qmark of
                          Some j \<Rightarrow> (ON_QUERY_STRING, j)
                        | None \<Rightarrow> (state p, len (str p))));
                (auth, str1) = aws_byte_cursor_advance (str p) end_off
            in s_parse_authority_port
                 (p\<lparr>uri := (uri p)\<lparr>authority := auth\<rparr>, state := st, str := str1\<rparr>)))"

definition s_parse_path :: "uri_parser \<Rightarrow> uri_parser" where
  "s_parse_path p =
     (let p0 = p\<lparr>uri := (uri p)\<lparr>path_and_query := str p\<rparr>\<rparr> in
      case memchr (uri p0) (env p0) (str p0) CHR ''?'' of
        None \<Rightarrow>
          (let u1 = (uri p0)\<lparr>path := \<lparr>len = len (str p0), ptr = ptr (str p0)\<rparr>\<rparr> in
           p0\<lparr>uri := u1, state := FINISHED,
              str := snd (aws_byte_cursor_advance (str p0) (len (path u1)))\<rparr>)
      | Some location_of_q_mark \<Rightarrow>
          if len (str p0) = 0 then
            uri_raise_error AWS_ERROR_MALFORMED_INPUT_STRING (p0\<lparr>state := ERROR\<rparr>)
          else
            (let u1 = (uri p0)\<lparr>path := \<lparr>len = location_of_q_mark, ptr = ptr (str p0)\<rparr>\<rparr> in
             p0\<lparr>uri := u1, str := snd (aws_byte_cursor_advance (str p0) (len (path u1))),
                state := ON_QUERY_STRING\<rparr>))"

definition s_parse_query_string :: "uri_parser \<Rightarrow> uri_parser" where
  "s_parse_query_string p =
     (let u1 = (if ptr (path_and_query (uri p)) = Null
                then (uri p)\<lparr>path_and_query := str p\<rparr> else uri p);
          u2 = (if len (str p) \<noteq> 0
                then u1\<lparr>query_string := \<lparr>len = len (str p) - 1, ptr = ptr_add (ptr (str p)) 1\<rparr>\<rparr>
                else u1)
      in p\<lparr>uri := u2, str := snd (aws_byte_cursor_advance (str p) (len (query_string u2) + 1)),
           state := FINISHED\<rparr>)"

text \<open>
  The table \<open>s_states\<close>. It has entries for the four states below \<open>FINISHED\<close> only,
  and the loop indexes it with no other state; the two remaining equations make the
  function total and are never used.
\<close>

fun s_states :: "parser_state \<Rightarrow> uri_parser \<Rightarrow> uri_parser" where
  "s_states ON_SCHEME = s_parse_scheme"
| "s_states ON_AUTHORITY = s_parse_authority"
| "s_states ON_PATH = s_parse_path"
| "s_states ON_QUERY_STRING = s_parse_query_string"
| "s_states FINISHED = id"
| "s_states ERROR = id"

lemma s_parse_authority_port_state:
  "state (s_parse_authority_port p) = state p \<or> state (s_parse_authority_port p) = ERROR"
  by (simp add: s_parse_authority_port_def Let_def uri_raise_error_def split: option.splits)

lemma state_value_le: "state_value s \<le> state_value ERROR"
  by (cases s) simp_all

lemma s_parse_authority_port_ge:
  "n \<le> state_value (state q) \<Longrightarrow> n \<le> state_value (state (s_parse_authority_port q))"
  using s_parse_authority_port_state [of q] state_value_le [of "state q"] by auto

lemma s_parse_authority_progress:
  "state p = ON_AUTHORITY \<Longrightarrow> 2 \<le> state_value (state (s_parse_authority p))"
  unfolding s_parse_authority_def Let_def
  by (auto intro!: s_parse_authority_port_ge simp: uri_raise_error_def
        split: option.splits prod.splits)

lemma s_states_progress:
  "state_value (state p) < state_value FINISHED \<Longrightarrow>
     state_value (state p) < state_value (state (s_states (state p) p))"
proof (cases "state p")
  case ON_SCHEME
  then show ?thesis
    by (simp add: s_parse_scheme_def Let_def uri_raise_error_def split: option.splits prod.splits)
next
  case ON_AUTHORITY
  with s_parse_authority_progress [OF ON_AUTHORITY] show ?thesis by simp
next
  case ON_PATH
  then show ?thesis
    by (simp add: s_parse_path_def Let_def uri_raise_error_def split: option.splits)
next
  case ON_QUERY_STRING
  then show ?thesis
    by (simp add: s_parse_query_string_def Let_def)
qed simp_all

text \<open>The loop \<open>while (parser.state < FINISHED)\<close> of \<open>s_init_from_uri_str\<close>.\<close>

function s_init_loop :: "uri_parser \<Rightarrow> uri_parser" where
  "s_init_loop p =
     (if state_value (state p) < state_value FINISHED
      then s_init_loop (s_states (state p) p)
      else p)"
  by pat_completeness auto
termination
proof (relation "measure (\<lambda>p. state_value ERROR - state_value (state p))", goal_cases)
  case 1
  show ?case by simp
next
  case (2 p)
  with s_states_progress [of p] state_value_le [of "state (s_states (state p) p)"]
  show ?case by simp
qed

declare s_init_loop.simps [simp del]

definition s_init_from_uri_str :: "aws_uri \<Rightarrow> uri_env \<Rightarrow> aws_op \<times> aws_uri \<times> uri_env" where
  "s_init_from_uri_str u e =
     (let parser = s_init_loop
            \<lparr>uri = u, state = ON_SCHEME, str = aws_byte_cursor_from_buf (uri_str u), env = e\<rparr>
      in if state parser = FINISHED then (AWS_OP_SUCCESS, uri parser, env parser)
         else
           (let (buf, e1) = aws_byte_buf_clean_up (uri_str (uri parser)) (env parser);
                u1 = (uri parser)\<lparr>uri_str := buf\<rparr>;
                u2 = zero_uri
            in (AWS_OP_ERR, u2, e1)))"

text \<open>
  \<open>aws_uri_init_parse\<close>. What \<open>*uri\<close> held before does not matter, the function zeroes it
  first; \<open>sizeof_uri\<close> is \<open>sizeof(struct aws_uri)\<close>, \<open>alloc\<close> the (non-null) allocator
  and \<open>input\<close> the bytes under the cursor \<open>uri_str\<close>.
\<close>

definition aws_uri_init_parse ::
  "nat \<Rightarrow> nat \<Rightarrow> string \<Rightarrow> uri_env \<Rightarrow> aws_op \<times> aws_uri \<times> uri_env" where
  "aws_uri_init_parse sizeof_uri alloc input e =
     (let u0 = zero_uri\<lparr>self_size := sizeof_uri, allocator := Some alloc\<rparr> in
      case aws_byte_buf_init_copy_from_cursor (Some alloc) input e of
        (AWS_OP_ERR, buf, e1) \<Rightarrow> (AWS_OP_ERR, u0\<lparr>uri_str := buf\<rparr>, e1)
      | (AWS_OP_SUCCESS, buf, e1) \<Rightarrow> s_init_from_uri_str (u0\<lparr>uri_str := buf\<rparr>) e1)"

definition env0 :: uri_env where
  "env0 = \<lparr>live_blocks = 0, acquire_succeeds = True, byte_past_block = CHR 0x00,
            raised_error = AWS_ERROR_SUCCESS\<rparr>"

text \<open>No state function touches \<open>uri_str\<close> or the allocator.\<close>

definition same_block :: "uri_parser \<Rightarrow> uri_parser \<Rightarrow> bool" where
  "same_block p q \<longleftrightarrow>
     uri_str (uri q) = uri_str (uri p) \<and> live_blocks (env q) = live_blocks (env p)"

section \<open>Properties of the socket channel handler\<close>

declare s_do_read_loop.simps [simp del]

declare s_socket_shutdown_drain.simps [simp del]

subsection \<open>Bookkeeping\<close>

lemma emit_fields [simp]:
  "trace (emit e w) = trace w @ [e]"
  "write_queue (emit e w) = write_queue w"
  "max_rw_size (emit e w) = max_rw_size w"
  "shutdown_err_code (emit e w) = shutdown_err_code w"
  "shutdown_in_progress (emit e w) = shutdown_in_progress w"
  "downstream_read_window (emit e w) = downstream_read_window w"
  "socket_is_open (emit e w) = socket_is_open w"
  "socket_reads (emit e w) = socket_reads w"
  "socket_shutdown_result (emit e w) = socket_shutdown_result w"
  "socket_write_result (emit e w) = socket_write_result w"
  "send_results (emit e w) = send_results w"
  "clock_result (emit e w) = clock_result w"
  "schedule_result (emit e w) = schedule_result w"
  "shutdown_complete_result (emit e w) = shutdown_complete_result w"
  "last_error (emit e w) = last_error w"
  "pool_next (emit e w) = pool_next w"
  by (simp_all add: emit_def)

lemma bytes_read_append [simp]: "bytes_read (xs @ ys) = bytes_read xs + bytes_read ys"
  by (induction xs) simp_all

lemma bytes_forwarded_append [simp]:
  "bytes_forwarded (xs @ ys) = bytes_forwarded xs + bytes_forwarded ys"
  by (induction xs) simp_all

lemma acquired_sizes_append [simp]: "acquired_sizes (xs @ ys) = acquired_sizes xs @ acquired_sizes ys"
  by (induction xs) simp_all

lemma send_failed_append [simp]: "send_failed (xs @ ys) = (send_failed xs \<or> send_failed ys)"
  by (induction xs) simp_all

lemma shutdown_codes_append [simp]: "shutdown_codes (xs @ ys) = shutdown_codes xs @ shutdown_codes ys"
  by (induction xs) simp_all

lemma scheduled_tasks_append [simp]: "scheduled_tasks (xs @ ys) = scheduled_tasks xs @ scheduled_tasks ys"
  by (induction xs) simp_all

lemma shutdown_completes_append [simp]:
  "shutdown_completes (xs @ ys) = shutdown_completes xs @ shutdown_completes ys"
  by (induction xs) simp_all

lemma new_events_append [simp]: "trace w' = trace w @ evs \<Longrightarrow> new_events w w' = evs"
  by (simp add: new_events_def)

lemma acquire_trace:
  "aws_channel_acquire_message_from_pool n w = (m, w1) \<Longrightarrow>
     trace w1 = trace w @ [Ev_acquire_message n (message_id m)]"
  by (auto simp: aws_channel_acquire_message_from_pool_def)

lemma read_fail_trace:
  "aws_socket_read m w1 = (Inl e, w2) \<Longrightarrow>
     trace w2 = trace w1 @ [Ev_socket_read (message_id m) (Inl e)] \<and> last_error w2 = e"
  by (auto simp: aws_socket_read_def Let_def split: list.splits read_outcome.splits)

lemma read_ok_trace:
  "aws_socket_read m w1 = (Inr (m', n), w2) \<Longrightarrow>
     trace w2 = trace w1 @ [Ev_socket_read (message_id m) (Inr n)]"
  by (auto simp: aws_socket_read_def Let_def split: list.splits read_outcome.splits)

lemma send_trace:
  "aws_channel_slot_send_message m w2 = (rc, w3) \<Longrightarrow>
     trace w3 = trace w2 @ [Ev_send_message (message_id m) (message_len m) rc]"
  by (auto simp: aws_channel_slot_send_message_def split: list.splits)

lemma release_fields [simp]:
  "trace (aws_channel_release_message_to_pool m w) = trace w @ [Ev_release_message (message_id m)]"
  "last_error (aws_channel_release_message_to_pool m w) = last_error w"
  by (simp_all add: aws_channel_release_message_to_pool_def)

text \<open>The definitions a concrete pass of the handler is evaluated with.\<close>

lemmas handler_eval = s_do_read_def s_do_read_loop.simps
  aws_channel_slot_downstream_read_window_def aws_channel_acquire_message_from_pool_def
  aws_socket_read_def aws_channel_slot_send_message_def aws_channel_release_message_to_pool_def
  aws_last_error_def aws_channel_shutdown_def aws_channel_current_clock_time_def
  aws_channel_schedule_task_def emit_def new_events_def max_to_read_def world0_def Let_def

subsection \<open>The read loop\<close>

lemma s_do_read_loop_frame:
  "s_do_read_loop mx t w = (ex, t', w') \<Longrightarrow> same_handler w w'"
proof (induction mx t w arbitrary: ex t' w' rule: s_do_read_loop.induct)
  case (1 mx t w)
  show ?case
  proof (cases "t < mx")
    case False
    with "1.prems" show ?thesis
      by (simp add: s_do_read_loop.simps [of mx t w] same_handler_def)
  next
    case True
    obtain message w1 where acq: "aws_channel_acquire_message_from_pool mx w = (message, w1)"
      by (cases "aws_channel_acquire_message_from_pool mx w")
    obtain r w2 where rd: "aws_socket_read message w1 = (r, w2)"
      by (cases "aws_socket_read message w1")
    have f1: "same_handler w w1"
      using acq by (auto simp: aws_channel_acquire_message_from_pool_def same_handler_def)
    have f2: "same_handler w1 w2"
      using rd by (auto simp: aws_socket_read_def same_handler_def Let_def
                        split: list.splits read_outcome.splits)
    show ?thesis
    proof (cases r)
      case (Inl e)
      with "1.prems" True acq rd f1 f2 show ?thesis
        by (auto simp: s_do_read_loop.simps [of mx t w] same_handler_def
              aws_channel_release_message_to_pool_def)
    next
      case (Inr b)
      obtain message' rd_n where b: "b = (message', rd_n)" by (cases b)
      obtain rc w3 where snd: "aws_channel_slot_send_message message' w2 = (rc, w3)"
        by (cases "aws_channel_slot_send_message message' w2")
      have f3: "same_handler w2 w3"
        using snd by (auto simp: aws_channel_slot_send_message_def same_handler_def
                        split: list.splits)
      show ?thesis
      proof (cases rc)
        case AWS_OP_ERR
        with "1.prems" True acq rd Inr b snd f1 f2 f3 show ?thesis
          by (auto simp: s_do_read_loop.simps [of mx t w] same_handler_def
                aws_channel_release_message_to_pool_def)
      next
        case AWS_OP_SUCCESS
        with "1.prems" True acq rd Inr b snd
        have "s_do_read_loop mx (t + rd_n) w3 = (ex, t', w')"
          by (simp add: s_do_read_loop.simps [of mx t w])
        then have "same_handler w3 w'"
          using "1.IH" [OF True acq [symmetric] rd [symmetric] Inr b [symmetric]
                           snd [symmetric] AWS_OP_SUCCESS] by simp
        with f1 f2 f3 show ?thesis by (simp add: same_handler_def)
      qed
    qed
  qed
qed

lemma s_do_read_loop_events:
  "s_do_read_loop mx t w = (ex, t', w') \<Longrightarrow>
     \<exists>evs. trace w' = trace w @ evs \<and> loop_events mx t ex t' (last_error w') evs"
proof (induction mx t w arbitrary: ex t' w' rule: s_do_read_loop.induct)
  case (1 mx t w)
  show ?case
  proof (cases "t < mx")
    case False
    with "1.prems" have "w' = w" "t' = t" "ex = Loop_condition_false"
      by (simp_all add: s_do_read_loop.simps [of mx t w])
    with False show ?thesis by (simp add: loop_events_def)
  next
    case True
    obtain message w1 where acq: "aws_channel_acquire_message_from_pool mx w = (message, w1)"
      by (cases "aws_channel_acquire_message_from_pool mx w")
    obtain r w2 where rd: "aws_socket_read message w1 = (r, w2)"
      by (cases "aws_socket_read message w1")
    note t1 = acquire_trace [OF acq]
    show ?thesis
    proof (cases r)
      case (Inl e)
      with "1.prems" True acq rd
      have res: "ex = Loop_break" "t' = t" "w' = aws_channel_release_message_to_pool message w2"
        by (simp_all add: s_do_read_loop.simps [of mx t w])
      from rd Inl have t2: "trace w2 = trace w1 @ [Ev_socket_read (message_id message) (Inl e)]"
        and le: "last_error w2 = e"
        using read_fail_trace by blast+
      let ?evs = "[Ev_acquire_message mx (message_id message),
                   Ev_socket_read (message_id message) (Inl e),
                   Ev_release_message (message_id message)]"
      have "trace w' = trace w @ ?evs" using res t1 t2 by simp
      moreover have "?evs = [Ev_acquire_message mx (message_id message)]
                       @ [Ev_socket_read (message_id message) (Inl e),
                          Ev_release_message (message_id message)]" by simp
      then have "loop_events mx t ex t' (last_error w') ?evs"
        unfolding loop_events_def using res le True by simp
      ultimately show ?thesis by blast
    next
      case (Inr b)
      obtain message' rd_n where b: "b = (message', rd_n)" by (cases b)
      obtain rc w3 where snd: "aws_channel_slot_send_message message' w2 = (rc, w3)"
        by (cases "aws_channel_slot_send_message message' w2")
      from rd Inr b have t2: "trace w2 = trace w1 @ [Ev_socket_read (message_id message) (Inr rd_n)]"
        using read_ok_trace by blast
      note t3 = send_trace [OF snd]
      show ?thesis
      proof (cases rc)
        case AWS_OP_ERR
        with "1.prems" True acq rd Inr b snd
        have res: "ex = Loop_return" "t' = t + rd_n"
            "w' = aws_channel_release_message_to_pool message' w3"
          by (simp_all add: s_do_read_loop.simps [of mx t w])
        let ?evs = "[Ev_acquire_message mx (message_id message),
                     Ev_socket_read (message_id message) (Inr rd_n),
                     Ev_send_message (message_id message') (message_len message') AWS_OP_ERR,
                     Ev_release_message (message_id message')]"
        have "trace w' = trace w @ ?evs" using res t1 t2 t3 AWS_OP_ERR by simp
        moreover have "loop_events mx t ex t' (last_error w') ?evs"
          unfolding loop_events_def using res by simp
        ultimately show ?thesis by blast
      next
        case AWS_OP_SUCCESS
        with "1.prems" True acq rd Inr b snd
        have rec: "s_do_read_loop mx (t + rd_n) w3 = (ex, t', w')"
          by (simp add: s_do_read_loop.simps [of mx t w])
        from "1.IH" [OF True acq [symmetric] rd [symmetric] Inr b [symmetric]
                        snd [symmetric] AWS_OP_SUCCESS rec]
        obtain evs where tr: "trace w' = trace w3 @ evs"
          and le: "loop_events mx (t + rd_n) ex t' (last_error w') evs" by blast
        let ?pre = "[Ev_acquire_message mx (message_id message),
                     Ev_socket_read (message_id message) (Inr rd_n),
                     Ev_send_message (message_id message') (message_len message') AWS_OP_SUCCESS]"
        have "trace w' = trace w @ (?pre @ evs)"
          using tr t1 t2 t3 AWS_OP_SUCCESS by simp
        moreover have "loop_events mx t ex t' (last_error w') (?pre @ evs)"
        proof -
          have "ex = Loop_break \<Longrightarrow>
                  \<exists>pre m. ?pre @ evs = pre @ [Ev_socket_read m (Inl (last_error w')), Ev_release_message m]"
          proof -
            assume "ex = Loop_break"
            with le obtain pre m where
              "evs = pre @ [Ev_socket_read m (Inl (last_error w')), Ev_release_message m]"
              unfolding loop_events_def by blast
            then have "?pre @ evs = (?pre @ pre) @ [Ev_socket_read m (Inl (last_error w')), Ev_release_message m]"
              by simp
            then show ?thesis by blast
          qed
          with le show ?thesis unfolding loop_events_def by (cases ex) auto
        qed
        ultimately show ?thesis by blast
      qed
    qed
  qed
qed

text \<open>\<open>s_do_read\<close> in terms of how its loop ended.\<close>

lemma s_do_read_after_loop:
  assumes nz: "max_to_read w \<noteq> 0"
    and loop: "s_do_read_loop (max_to_read w) 0 w = (ex, n_read, w1)"
  shows "s_do_read w =
    (if ex = Loop_return then w1
     else if n_read < max_to_read w then
       (if last_error w1 \<noteq> AWS_IO_READ_WOULD_BLOCK \<and> \<not> shutdown_in_progress w
        then emit (Ev_channel_shutdown (last_error w1)) w1 else w1)
     else if \<not> shutdown_in_progress w \<and> n_read = max_rw_size w
               \<and> aws_channel_current_clock_time w = AWS_OP_SUCCESS
       then emit (Ev_schedule_task Fn_s_read_task) w1 else w1)"
proof -
  from s_do_read_loop_frame [OF loop]
  have fr: "shutdown_in_progress w1 = shutdown_in_progress w" "max_rw_size w1 = max_rw_size w"
    "clock_result w1 = clock_result w"
    by (simp_all add: same_handler_def)
  have mx: "(if max_rw_size w < aws_channel_slot_downstream_read_window w then max_rw_size w
             else aws_channel_slot_downstream_read_window w) = max_to_read w"
    by (simp add: max_to_read_def)
  show ?thesis
    unfolding s_do_read_def Let_def mx using nz loop fr
    by (cases ex)
       (simp_all add: aws_last_error_def aws_channel_shutdown_def
          aws_channel_current_clock_time_def aws_channel_schedule_task_def)
qed

text \<open>The events of a whole pass: the loop's events, then at most one more.\<close>

lemma s_do_read_events:
  assumes nz: "max_to_read w \<noteq> 0"
    and loop: "s_do_read_loop (max_to_read w) 0 w = (ex, n_read, w1)"
  shows "\<exists>evs. trace w1 = trace w @ evs
           \<and> loop_events (max_to_read w) 0 ex n_read (last_error w1) evs
           \<and> trace (s_do_read w) = trace w @ evs @
    (if ex = Loop_return then []
     else if n_read < max_to_read w then
       (if last_error w1 \<noteq> AWS_IO_READ_WOULD_BLOCK \<and> \<not> shutdown_in_progress w
        then [Ev_channel_shutdown (last_error w1)] else [])
     else if \<not> shutdown_in_progress w \<and> n_read = max_rw_size w
               \<and> aws_channel_current_clock_time w = AWS_OP_SUCCESS
       then [Ev_schedule_task Fn_s_read_task] else [])"
proof -
  from s_do_read_loop_events [OF loop] obtain evs where
    tr: "trace w1 = trace w @ evs"
    and le: "loop_events (max_to_read w) 0 ex n_read (last_error w1) evs" by blast
  show ?thesis
    using tr le by (auto simp: s_do_read_after_loop [OF nz loop])
qed

lemma s_do_read_idle: "max_to_read w = 0 \<Longrightarrow> s_do_read w = w"
  by (simp add: s_do_read_def max_to_read_def Let_def)

text \<open>
  Every buffer a pass acquires is asked for with capacity \<open>max_to_read\<close>, whatever has
  been read before it in the pass.
\<close>

lemma s_do_read_acquired_sizes:
  "set (acquired_sizes (new_events w (s_do_read w))) \<subseteq> {max_to_read w}"
proof (cases "max_to_read w = 0")
  case True
  then show ?thesis by (simp add: s_do_read_idle new_events_def)
next
  case False
  obtain ex n_read w1 where loop: "s_do_read_loop (max_to_read w) 0 w = (ex, n_read, w1)"
    by (cases "s_do_read_loop (max_to_read w) 0 w")
  from s_do_read_events [OF False loop] obtain evs where
    le: "loop_events (max_to_read w) 0 ex n_read (last_error w1) evs"
    and ev0: "trace (s_do_read w) = trace w @ evs @
    (if ex = Loop_return then []
     else if n_read < max_to_read w then
       (if last_error w1 \<noteq> AWS_IO_READ_WOULD_BLOCK \<and> \<not> shutdown_in_progress w
        then [Ev_channel_shutdown (last_error w1)] else [])
     else if \<not> shutdown_in_progress w \<and> n_read = max_rw_size w
               \<and> aws_channel_current_clock_time w = AWS_OP_SUCCESS
       then [Ev_schedule_task Fn_s_read_task] else [])" by blast
  from le have "set (acquired_sizes evs) \<subseteq> {max_to_read w}" by (simp add: loop_events_def)
  then show ?thesis unfolding new_events_append [OF ev0] by auto
qed

lemma acquire_capacity:
  "aws_channel_acquire_message_from_pool n w = (m, w1) \<Longrightarrow>
     message_capacity m = n \<and> message_len m = 0"
  by (auto simp: aws_channel_acquire_message_from_pool_def)

lemma read_ok_amount:
  "aws_socket_read m w1 = (Inr (m', n), w2) \<Longrightarrow> n \<le> message_capacity m - message_len m"
  by (auto simp: aws_socket_read_def Let_def split: list.splits read_outcome.splits)

text \<open>
  What the loop does guarantee: entered below the quota, it leaves \<open>total_read\<close> below
  twice the quota, since the last read starts below the quota and fills at most one
  buffer of capacity \<open>max_to_read\<close>.
\<close>

lemma s_do_read_loop_bound:
  "s_do_read_loop mx t w = (ex, t', w') \<Longrightarrow>
     (mx \<le> t \<longrightarrow> t' = t) \<and> (t < mx \<longrightarrow> t' < mx + mx)"
proof (induction mx t w arbitrary: ex t' w' rule: s_do_read_loop.induct)
  case (1 mx t w)
  show ?case
  proof (cases "t < mx")
    case False
    with "1.prems" show ?thesis by (simp add: s_do_read_loop.simps [of mx t w])
  next
    case True
    obtain message w1 where acq: "aws_channel_acquire_message_from_pool mx w = (message, w1)"
      by (cases "aws_channel_acquire_message_from_pool mx w")
    obtain r w2 where rd: "aws_socket_read message w1 = (r, w2)"
      by (cases "aws_socket_read message w1")
    show ?thesis
    proof (cases r)
      case (Inl e)
      with "1.prems" True acq rd show ?thesis
        by (simp add: s_do_read_loop.simps [of mx t w])
    next
      case (Inr b)
      obtain message' rd_n where b: "b = (message', rd_n)" by (cases b)
      obtain rc w3 where snd: "aws_channel_slot_send_message message' w2 = (rc, w3)"
        by (cases "aws_channel_slot_send_message message' w2")
      from rd Inr b acquire_capacity [OF acq] read_ok_amount [of message w1 message' rd_n w2]
      have amount: "rd_n \<le> mx" by simp
      show ?thesis
      proof (cases rc)
        case AWS_OP_ERR
        with "1.prems" True acq rd Inr b snd amount show ?thesis
          by (simp add: s_do_read_loop.simps [of mx t w])
      next
        case AWS_OP_SUCCESS
        with "1.prems" True acq rd Inr b snd
        have rec: "s_do_read_loop mx (t + rd_n) w3 = (ex, t', w')"
          by (simp add: s_do_read_loop.simps [of mx t w])
        from "1.IH" [OF True acq [symmetric] rd [symmetric] Inr b [symmetric]
                        snd [symmetric] AWS_OP_SUCCESS rec]
        have "(mx \<le> t + rd_n \<longrightarrow> t' = t + rd_n) \<and> (t + rd_n < mx \<longrightarrow> t' < mx + mx)" .
        with True amount show ?thesis by (cases "t + rd_n < mx") auto
      qed
    qed
  qed
qed

lemma s_do_read_bytes_bound:
  "bytes_read (new_events w (s_do_read w)) \<le> 2 * max_to_read w - 1"
proof (cases "max_to_read w = 0")
  case True
  then show ?thesis by (simp add: s_do_read_idle new_events_def)
next
  case False
  obtain ex n_read w1 where loop: "s_do_read_loop (max_to_read w) 0 w = (ex, n_read, w1)"
    by (cases "s_do_read_loop (max_to_read w) 0 w")
  from s_do_read_events [OF False loop] obtain evs where
    le: "loop_events (max_to_read w) 0 ex n_read (last_error w1) evs"
    and ev0: "trace (s_do_read w) = trace w @ evs @
    (if ex = Loop_return then []
     else if n_read < max_to_read w then
       (if last_error w1 \<noteq> AWS_IO_READ_WOULD_BLOCK \<and> \<not> shutdown_in_progress w
        then [Ev_channel_shutdown (last_error w1)] else [])
     else if \<not> shutdown_in_progress w \<and> n_read = max_rw_size w
               \<and> aws_channel_current_clock_time w = AWS_OP_SUCCESS
       then [Ev_schedule_task Fn_s_read_task] else [])" by blast
  from le have "n_read = bytes_read evs" by (simp add: loop_events_def)
  moreover from s_do_read_loop_bound [OF loop] False
  have "n_read < max_to_read w + max_to_read w" by simp
  ultimately show ?thesis unfolding new_events_append [OF ev0] by auto
qed

text \<open>A pass that a failed forwarding ends requests no shutdown and schedules nothing.\<close>

lemma s_do_read_forward_failure:
  assumes "send_failed (new_events w (s_do_read w))"
  shows "shutdown_codes (new_events w (s_do_read w)) = []
         \<and> scheduled_tasks (new_events w (s_do_read w)) = []"
proof (cases "max_to_read w = 0")
  case True
  then show ?thesis by (simp add: s_do_read_idle new_events_def)
next
  case False
  obtain ex n_read w1 where loop: "s_do_read_loop (max_to_read w) 0 w = (ex, n_read, w1)"
    by (cases "s_do_read_loop (max_to_read w) 0 w")
  from s_do_read_events [OF False loop] obtain evs where
    le: "loop_events (max_to_read w) 0 ex n_read (last_error w1) evs"
    and ev0: "trace (s_do_read w) = trace w @ evs @
    (if ex = Loop_return then []
     else if n_read < max_to_read w then
       (if last_error w1 \<noteq> AWS_IO_READ_WOULD_BLOCK \<and> \<not> shutdown_in_progress w
        then [Ev_channel_shutdown (last_error w1)] else [])
     else if \<not> shutdown_in_progress w \<and> n_read = max_rw_size w
               \<and> aws_channel_current_clock_time w = AWS_OP_SUCCESS
       then [Ev_schedule_task Fn_s_read_task] else [])" by blast
  from le have sf: "send_failed evs = (ex = Loop_return)"
    and sc: "shutdown_codes evs = []" and st: "scheduled_tasks evs = []"
    by (simp_all add: loop_events_def)
  from assms sf have "ex = Loop_return"
    unfolding new_events_append [OF ev0] by (auto split: if_splits)
  with sc st show ?thesis unfolding new_events_append [OF ev0] by simp
qed

text \<open>
  C1 (the code departs from the claim). The claim: each buffer of a drain pass is sized to
  the remaining quota, and the bytes read and forwarded in the pass never exceed
  \<open>min(downstream window, max_chunk_size)\<close>. In \<open>s_do_read\<close> every buffer is acquired
  with capacity \<open>max_to_read\<close>, not \<open>max_to_read - total_read\<close> (lemma
  \<open>s_do_read_acquired_sizes\<close>). With \<open>max_rw_size = 10\<close> and a window of 100 the quota
  is 10; the first read delivers 4 bytes, so 6 remain, yet the second buffer again has
  capacity 10 and the socket fills it: the pass reads and forwards 14 bytes. (What the
  code keeps to is \<open>2 * max_to_read - 1\<close>, lemma \<open>s_do_read_bytes_bound\<close>.)
\<close>

theorem s_do_read_overruns_quota:
  "max_to_read world_short_then_full = 10
   \<and> trace (s_do_read world_short_then_full) =
       [Ev_acquire_message 10 0, Ev_socket_read 0 (Inr 4), Ev_send_message 0 4 AWS_OP_SUCCESS,
        Ev_acquire_message 10 1, Ev_socket_read 1 (Inr 10), Ev_send_message 1 10 AWS_OP_SUCCESS]
   \<and> acquired_sizes (new_events world_short_then_full (s_do_read world_short_then_full)) = [10, 10]
   \<and> bytes_read (new_events world_short_then_full (s_do_read world_short_then_full)) = 14
   \<and> bytes_forwarded (new_events world_short_then_full (s_do_read world_short_then_full)) = 14"
  by (simp add: handler_eval world_short_then_full_def)

text \<open>
  C2, as stated, fails: with a downstream window of 5 below \<open>max_rw_size = 10\<close>, a pass
  that obtains exactly \<open>max_to_read = 5\<close> bytes while no shutdown is in progress
  schedules no follow-up read task.
\<close>

theorem s_do_read_small_window_no_follow_up:
  "max_to_read world_small_window = 5
   \<and> bytes_read (new_events world_small_window (s_do_read world_small_window)) = 5
   \<and> \<not> shutdown_in_progress world_small_window
   \<and> scheduled_tasks (new_events world_small_window (s_do_read world_small_window)) = []"
  by (simp add: handler_eval world_small_window_def)

text \<open>
  C2, amended: a call of \<open>s_do_read\<close> schedules the follow-up read task (once) exactly when
  the quota \<open>max_to_read\<close> is not zero, no forwarding of a buffer failed, the bytes read in
  the pass are exactly \<open>max_rw_size\<close>, no shutdown is in progress and the channel clock
  could be read; otherwise it schedules nothing. The test is against \<open>max_rw_size\<close>, not
  against \<open>max_to_read\<close>.
\<close>

theorem s_do_read_follow_up:
  "scheduled_tasks (new_events w (s_do_read w)) =
     (if max_to_read w \<noteq> 0
         \<and> \<not> send_failed (new_events w (s_do_read w))
         \<and> bytes_read (new_events w (s_do_read w)) = max_rw_size w
         \<and> \<not> shutdown_in_progress w
         \<and> aws_channel_current_clock_time w = AWS_OP_SUCCESS
      then [Fn_s_read_task] else [])"
proof (cases "max_to_read w = 0")
  case True
  then show ?thesis by (simp add: s_do_read_idle new_events_def)
next
  case False
  obtain ex n_read w1 where loop: "s_do_read_loop (max_to_read w) 0 w = (ex, n_read, w1)"
    by (cases "s_do_read_loop (max_to_read w) 0 w")
  from s_do_read_events [OF False loop] obtain evs where
    le: "loop_events (max_to_read w) 0 ex n_read (last_error w1) evs"
    and ev0: "trace (s_do_read w) = trace w @ evs @
    (if ex = Loop_return then []
     else if n_read < max_to_read w then
       (if last_error w1 \<noteq> AWS_IO_READ_WOULD_BLOCK \<and> \<not> shutdown_in_progress w
        then [Ev_channel_shutdown (last_error w1)] else [])
     else if \<not> shutdown_in_progress w \<and> n_read = max_rw_size w
               \<and> aws_channel_current_clock_time w = AWS_OP_SUCCESS
       then [Ev_schedule_task Fn_s_read_task] else [])" by blast
  note ev = new_events_append [OF ev0]
  have le_mx: "max_to_read w \<le> max_rw_size w" by (simp add: max_to_read_def)
  from le have tot: "n_read = bytes_read evs" and sf: "send_failed evs = (ex = Loop_return)"
    and st: "scheduled_tasks evs = []"
    by (simp_all add: loop_events_def)
  show ?thesis
    unfolding ev using False tot sf st le_mx by auto
qed

text \<open>
  C2, witness: a pass that reads exactly \<open>max_rw_size = 10\<close> bytes under a window of 100
  schedules the read task.
\<close>

theorem s_do_read_follow_up_witness:
  "bytes_read (new_events world_full_chunk (s_do_read world_full_chunk)) = max_rw_size world_full_chunk
   \<and> max_to_read world_full_chunk = 10
   \<and> scheduled_tasks (new_events world_full_chunk (s_do_read world_full_chunk)) = [Fn_s_read_task]"
proof -
  have ev: "new_events world_full_chunk (s_do_read world_full_chunk) =
      [Ev_acquire_message 10 0, Ev_socket_read 0 (Inr 10), Ev_send_message 0 10 AWS_OP_SUCCESS,
       Ev_schedule_task Fn_s_read_task]"
    by (simp add: handler_eval world_full_chunk_def)
  have c: "max_to_read world_full_chunk = 10" "max_rw_size world_full_chunk = 10"
    "\<not> shutdown_in_progress world_full_chunk"
    "aws_channel_current_clock_time world_full_chunk = AWS_OP_SUCCESS"
    by (simp_all add: handler_eval world_full_chunk_def)
  have b: "bytes_read (new_events world_full_chunk (s_do_read world_full_chunk)) = 10"
    "\<not> send_failed (new_events world_full_chunk (s_do_read world_full_chunk))"
    by (simp_all add: ev)
  show ?thesis using s_do_read_follow_up [of world_full_chunk] b c by simp
qed

text \<open>
  C5: a pass in which no forwarding failed and fewer bytes were read than \<open>max_to_read\<close>
  ended with a failed socket read; its events end with that read (error \<open>e\<close>) and the
  release of its buffer, followed by a channel shutdown with the code \<open>e\<close> when \<open>e\<close> is
  not would-block and no shutdown is in progress, and by nothing otherwise. Nothing is
  scheduled and no other shutdown is requested in the pass. (A pass that a failed
  forwarding ends returns inside the loop and never reaches this code.)
\<close>

theorem s_do_read_short_pass:
  assumes sf: "\<not> send_failed (new_events w (s_do_read w))"
    and short: "bytes_read (new_events w (s_do_read w)) < max_to_read w"
  shows "\<exists>pre m e. new_events w (s_do_read w) =
            pre @ [Ev_socket_read m (Inl e), Ev_release_message m]
            @ (if e \<noteq> AWS_IO_READ_WOULD_BLOCK \<and> \<not> shutdown_in_progress w
               then [Ev_channel_shutdown e] else [])
          \<and> shutdown_codes pre = [] \<and> scheduled_tasks pre = []"
proof -
  from short have nz: "max_to_read w \<noteq> 0" by simp
  obtain ex n_read w1 where loop: "s_do_read_loop (max_to_read w) 0 w = (ex, n_read, w1)"
    by (cases "s_do_read_loop (max_to_read w) 0 w")
  from s_do_read_events [OF nz loop] obtain evs where
    le: "loop_events (max_to_read w) 0 ex n_read (last_error w1) evs"
    and ev0: "trace (s_do_read w) = trace w @ evs @
    (if ex = Loop_return then []
     else if n_read < max_to_read w then
       (if last_error w1 \<noteq> AWS_IO_READ_WOULD_BLOCK \<and> \<not> shutdown_in_progress w
        then [Ev_channel_shutdown (last_error w1)] else [])
     else if \<not> shutdown_in_progress w \<and> n_read = max_rw_size w
               \<and> aws_channel_current_clock_time w = AWS_OP_SUCCESS
       then [Ev_schedule_task Fn_s_read_task] else [])" by blast
  note ev = new_events_append [OF ev0]
  from le have tot: "n_read = bytes_read evs" and sfe: "send_failed evs = (ex = Loop_return)"
    and sc: "shutdown_codes evs = []" and st: "scheduled_tasks evs = []"
    and cf: "ex = Loop_condition_false \<Longrightarrow> max_to_read w \<le> n_read"
    and br: "ex = Loop_break \<Longrightarrow>
        \<exists>pre m. evs = pre @ [Ev_socket_read m (Inl (last_error w1)), Ev_release_message m]"
    by (simp_all add: loop_events_def)
  from sf ev sfe have nret: "ex \<noteq> Loop_return" by auto
  from short ev tot have lt: "n_read < max_to_read w" by (auto split: if_splits)
  with cf nret have "ex = Loop_break" by (cases ex) auto
  with br obtain pre m where
    evs: "evs = pre @ [Ev_socket_read m (Inl (last_error w1)), Ev_release_message m]" by blast
  from sc st evs have "shutdown_codes pre = []" "scheduled_tasks pre = []" by simp_all
  moreover have "new_events w (s_do_read w) =
      pre @ [Ev_socket_read m (Inl (last_error w1)), Ev_release_message m]
      @ (if last_error w1 \<noteq> AWS_IO_READ_WOULD_BLOCK \<and> \<not> shutdown_in_progress w
         then [Ev_channel_shutdown (last_error w1)] else [])"
    using ev nret lt evs by simp
  ultimately show ?thesis by blast
qed

text \<open>
  C5, witness: 3 bytes, then a read failing with another error than would-block; the
  pass ends with a channel shutdown carrying that error.
\<close>

theorem s_do_read_short_pass_witness:
  "\<not> send_failed (new_events world_read_error (s_do_read world_read_error))
   \<and> bytes_read (new_events world_read_error (s_do_read world_read_error))
       < max_to_read world_read_error
   \<and> new_events world_read_error (s_do_read world_read_error) =
       [Ev_acquire_message 10 0, Ev_socket_read 0 (Inr 3), Ev_send_message 0 3 AWS_OP_SUCCESS,
        Ev_acquire_message 10 1, Ev_socket_read 1 (Inl (AWS_ERROR_OTHER 5)), Ev_release_message 1,
        Ev_channel_shutdown (AWS_ERROR_OTHER 5)]
   \<and> (\<exists>pre m e. new_events world_read_error (s_do_read world_read_error) =
            pre @ [Ev_socket_read m (Inl e), Ev_release_message m]
            @ (if e \<noteq> AWS_IO_READ_WOULD_BLOCK \<and> \<not> shutdown_in_progress world_read_error
               then [Ev_channel_shutdown e] else [])
          \<and> shutdown_codes pre = [] \<and> scheduled_tasks pre = [])"
proof -
  have ev: "new_events world_read_error (s_do_read world_read_error) =
       [Ev_acquire_message 10 0, Ev_socket_read 0 (Inr 3), Ev_send_message 0 3 AWS_OP_SUCCESS,
        Ev_acquire_message 10 1, Ev_socket_read 1 (Inl (AWS_ERROR_OTHER 5)), Ev_release_message 1,
        Ev_channel_shutdown (AWS_ERROR_OTHER 5)]"
    by (simp add: handler_eval world_read_error_def)
  have mx: "max_to_read world_read_error = 10"
    by (simp add: handler_eval world_read_error_def)
  have h1: "\<not> send_failed (new_events world_read_error (s_do_read world_read_error))"
    by (simp add: ev)
  have h2: "bytes_read (new_events world_read_error (s_do_read world_read_error))
              < max_to_read world_read_error"
    by (simp add: ev mx)
  from s_do_read_short_pass [OF h1 h2] h1 h2 ev show ?thesis by blast
qed

subsection \<open>Write completion\<close>

text \<open>
  What a write completion does, whatever the state of the handler: for a message it calls
  the message's completion callback, when it has one, with the resulting error code,
  releases the message to its pool and, when the error code is not zero, calls
  \<open>aws_channel_shutdown\<close> with that code; it changes nothing else. A completion with no
  message (null \<open>user_data\<close>) does nothing.
\<close>

lemma s_on_socket_write_complete_events:
  "trace (s_on_socket_write_complete error_code (Some message) w) =
     trace w
     @ (case on_completion message of
          None \<Rightarrow> []
        | Some cb \<Rightarrow> [Ev_on_completion cb (message_id message) error_code])
     @ [Ev_release_message (message_id message)]
     @ (if error_code \<noteq> AWS_ERROR_SUCCESS then [Ev_channel_shutdown error_code] else [])
   \<and> (s_on_socket_write_complete error_code (Some message) w)\<lparr>trace := trace w\<rparr> = w
   \<and> s_on_socket_write_complete error_code None w = w"
  by (simp add: s_on_socket_write_complete_def call_on_completion_def Let_def
        aws_channel_release_message_to_pool_def aws_channel_shutdown_def emit_def
        split: option.splits)

text \<open>
  C3 (the code departs from the claim). The claim: a write completion with a non-zero
  error code initiates a pipeline shutdown with that code unless shutdown is already
  underway. The two read-side error paths test \<open>shutdown_in_progress\<close> before they call
  \<open>aws_channel_shutdown\<close>; \<open>s_on_socket_write_complete\<close> does not. On a handler whose
  shutdown is in progress, the completion of \<open>msg_a\<close> with \<open>AWS_IO_SOCKET_CLOSED\<close> calls
  the callback, releases the message and calls \<open>aws_channel_shutdown\<close> once more.
\<close>

theorem s_on_socket_write_complete_unguarded:
  "shutdown_in_progress (world0\<lparr>shutdown_in_progress := True\<rparr>)
   \<and> trace (s_on_socket_write_complete AWS_IO_SOCKET_CLOSED (Some msg_a)
         (world0\<lparr>shutdown_in_progress := True\<rparr>)) =
       [Ev_on_completion 7 100 AWS_IO_SOCKET_CLOSED, Ev_release_message 100,
        Ev_channel_shutdown AWS_IO_SOCKET_CLOSED]"
  by (simp add: s_on_socket_write_complete_def call_on_completion_def Let_def
        aws_channel_release_message_to_pool_def aws_channel_shutdown_def emit_def
        world0_def msg_a_def)

subsection \<open>Shutdown\<close>

lemma s_socket_shutdown_drain_eq:
  "s_socket_shutdown_drain w =
     w\<lparr>write_queue := [], trace := trace w @ concat (map drained (write_queue w))\<rparr>"
proof (induction "write_queue w" arbitrary: w)
  case Nil
  then have "write_queue w = []" by simp
  then show ?case by (simp add: s_socket_shutdown_drain.simps [of w])
next
  case (Cons message rest)
  from Cons.hyps(2) have q: "write_queue w = message # rest" by simp
  let ?w3 = "aws_channel_release_message_to_pool message
               (call_on_completion message AWS_IO_SOCKET_CLOSED (w\<lparr>write_queue := rest\<rparr>))"
  have q3: "rest = write_queue ?w3"
    by (simp add: aws_channel_release_message_to_pool_def call_on_completion_def emit_def
          split: option.splits)
  have "s_socket_shutdown_drain w = s_socket_shutdown_drain ?w3"
    using q by (simp add: s_socket_shutdown_drain.simps [of w] Let_def)
  also have "\<dots> = ?w3\<lparr>write_queue := [], trace := trace ?w3 @ concat (map drained (write_queue ?w3))\<rparr>"
    by (rule Cons.hyps(1) [OF q3])
  also have "\<dots> = w\<lparr>write_queue := [], trace := trace w @ concat (map drained (write_queue w))\<rparr>"
    using q by (simp add: aws_channel_release_message_to_pool_def call_on_completion_def
                  emit_def drained_def split: option.splits)
  finally show ?case .
qed

lemma s_socket_shutdown_write_eq:
  "s_socket_shutdown AWS_CHANNEL_DIR_WRITE error_code abort w =
     (let w1 = w\<lparr>shutdown_in_progress := True, write_queue := [],
                 trace := trace w @ concat (map drained (write_queue w))\<rparr>;
          w2 = (if socket_is_open w
                then emit Ev_socket_shutdown
                       (if socket_shutdown_result w = AWS_OP_SUCCESS
                        then w1\<lparr>socket_is_open := False\<rparr> else w1)
                else w1)
      in if clock_result w \<noteq> AWS_OP_SUCCESS then (AWS_OP_ERR, w2)
         else (schedule_result w,
               emit (Ev_schedule_task Fn_s_shutdown_task) (w2\<lparr>shutdown_err_code := error_code\<rparr>)))"
  by (simp add: s_socket_shutdown_def Let_def s_socket_shutdown_drain_eq aws_socket_is_open_def
        aws_socket_shutdown_def aws_channel_current_clock_time_def aws_channel_schedule_task_def
        emit_def)

lemma s_socket_shutdown_read_eq:
  "s_socket_shutdown AWS_CHANNEL_DIR_READ error_code abort w =
     (let w0 = w\<lparr>shutdown_in_progress := True\<rparr> in
      if abort \<and> socket_is_open w then
        (if socket_shutdown_result w = AWS_OP_ERR then (AWS_OP_ERR, emit Ev_socket_shutdown w0)
         else (shutdown_complete_result w,
               emit (Ev_shutdown_complete AWS_CHANNEL_DIR_READ error_code abort)
                 (emit Ev_socket_shutdown (w0\<lparr>socket_is_open := False\<rparr>))))
      else (shutdown_complete_result w,
            emit (Ev_shutdown_complete AWS_CHANNEL_DIR_READ error_code abort) w0))"
  by (cases "socket_shutdown_result w")
     (simp_all add: s_socket_shutdown_def Let_def aws_socket_is_open_def
        aws_socket_shutdown_def aws_channel_slot_on_handler_shutdown_complete_def emit_def)

text \<open>
  C4, as stated, fails: when the channel clock cannot be read, a write-direction
  shutdown drains the queue and closes the socket but schedules no task; it returns
  \<open>AWS_OP_ERR\<close>.
\<close>

theorem s_socket_shutdown_write_no_clock:
  "new_events world_queued_no_clock
     (snd (s_socket_shutdown AWS_CHANNEL_DIR_WRITE AWS_ERROR_SUCCESS False world_queued_no_clock)) =
     [Ev_on_completion 7 100 AWS_IO_SOCKET_CLOSED, Ev_release_message 100,
      Ev_release_message 101, Ev_socket_shutdown]
   \<and> fst (s_socket_shutdown AWS_CHANNEL_DIR_WRITE AWS_ERROR_SUCCESS False world_queued_no_clock) =
       AWS_OP_ERR"
  by (simp add: s_socket_shutdown_write_eq Let_def emit_def new_events_def drained_def
        world_queued_no_clock_def world0_def msg_a_def msg_b_def)

text \<open>
  C4, amended: a write-direction shutdown sets \<open>shutdown_in_progress\<close>; empties the write
  queue front to back, for each message calling its completion callback (when it has one)
  with \<open>AWS_IO_SOCKET_CLOSED\<close> and then releasing it; calls \<open>aws_socket_shutdown\<close> if the
  socket is open; and, when the channel clock can be read, records the error code and
  schedules \<open>s_shutdown_task\<close>, returning the scheduler's result. When the clock cannot
  be read it schedules nothing and returns \<open>AWS_OP_ERR\<close>. It never reports
  shutdown-complete itself: that is what the task does when it runs, for the write
  direction, with the recorded code.
\<close>

theorem s_socket_shutdown_write:
  "shutdown_in_progress (snd (s_socket_shutdown AWS_CHANNEL_DIR_WRITE error_code abort w))
   \<and> write_queue (snd (s_socket_shutdown AWS_CHANNEL_DIR_WRITE error_code abort w)) = []
   \<and> new_events w (snd (s_socket_shutdown AWS_CHANNEL_DIR_WRITE error_code abort w)) =
       concat (map drained (write_queue w))
       @ (if aws_socket_is_open w then [Ev_socket_shutdown] else [])
       @ (if aws_channel_current_clock_time w = AWS_OP_SUCCESS
          then [Ev_schedule_task Fn_s_shutdown_task] else [])
   \<and> fst (s_socket_shutdown AWS_CHANNEL_DIR_WRITE error_code abort w) =
       (if aws_channel_current_clock_time w = AWS_OP_SUCCESS then schedule_result w
        else AWS_OP_ERR)
   \<and> shutdown_err_code (snd (s_socket_shutdown AWS_CHANNEL_DIR_WRITE error_code abort w)) =
       (if aws_channel_current_clock_time w = AWS_OP_SUCCESS then error_code
        else shutdown_err_code w)
   \<and> new_events (snd (s_socket_shutdown AWS_CHANNEL_DIR_WRITE error_code abort w))
       (s_shutdown_task status (snd (s_socket_shutdown AWS_CHANNEL_DIR_WRITE error_code abort w))) =
       [Ev_shutdown_complete AWS_CHANNEL_DIR_WRITE
          (if aws_channel_current_clock_time w = AWS_OP_SUCCESS then error_code
           else shutdown_err_code w) False]"
  by (simp add: s_socket_shutdown_def Let_def s_socket_shutdown_drain_eq aws_socket_is_open_def
        aws_socket_shutdown_def aws_channel_current_clock_time_def aws_channel_schedule_task_def
        s_shutdown_task_def aws_channel_slot_on_handler_shutdown_complete_def
        new_events_def emit_def)

text \<open>C4, witness: two queued messages, the first with a callback, and a working clock.\<close>

theorem s_socket_shutdown_write_witness:
  "new_events world_queued
     (snd (s_socket_shutdown AWS_CHANNEL_DIR_WRITE (AWS_ERROR_OTHER 3) False world_queued)) =
     [Ev_on_completion 7 100 AWS_IO_SOCKET_CLOSED, Ev_release_message 100,
      Ev_release_message 101, Ev_socket_shutdown, Ev_schedule_task Fn_s_shutdown_task]
   \<and> shutdown_in_progress
       (snd (s_socket_shutdown AWS_CHANNEL_DIR_WRITE (AWS_ERROR_OTHER 3) False world_queued))
   \<and> new_events
       (snd (s_socket_shutdown AWS_CHANNEL_DIR_WRITE (AWS_ERROR_OTHER 3) False world_queued))
       (s_shutdown_task AWS_TASK_STATUS_RUN_READY
          (snd (s_socket_shutdown AWS_CHANNEL_DIR_WRITE (AWS_ERROR_OTHER 3) False world_queued))) =
       [Ev_shutdown_complete AWS_CHANNEL_DIR_WRITE (AWS_ERROR_OTHER 3) False]"
  using s_socket_shutdown_write [of "AWS_ERROR_OTHER 3" False world_queued AWS_TASK_STATUS_RUN_READY]
  by (simp add: world_queued_def world0_def msg_a_def msg_b_def drained_def
        aws_socket_is_open_def aws_channel_current_clock_time_def)

text \<open>
  C7, as stated, fails: in an abort shutdown of the read direction on an open socket
  whose \<open>aws_socket_shutdown\<close> fails, the handler returns \<open>AWS_OP_ERR\<close> and does not report
  shutdown-complete.
\<close>

theorem s_socket_shutdown_read_close_fails:
  "new_events world_close_fails
     (snd (s_socket_shutdown AWS_CHANNEL_DIR_READ AWS_ERROR_SUCCESS True world_close_fails)) =
     [Ev_socket_shutdown]
   \<and> fst (s_socket_shutdown AWS_CHANNEL_DIR_READ AWS_ERROR_SUCCESS True world_close_fails) =
       AWS_OP_ERR"
  by (simp add: s_socket_shutdown_read_eq Let_def emit_def new_events_def
        world_close_fails_def world0_def)

text \<open>
  C7, amended: a read-direction shutdown sets \<open>shutdown_in_progress\<close>; if it is an abort
  and the socket is open it calls \<open>aws_socket_shutdown\<close>; and, unless that call failed, it
  reports shutdown-complete for the read direction inline, with the error code and the
  abort flag it was given, and returns the result of the report. When the socket
  shutdown fails it reports nothing and returns \<open>AWS_OP_ERR\<close>. No task is scheduled.
\<close>

theorem s_socket_shutdown_read:
  "shutdown_in_progress (snd (s_socket_shutdown AWS_CHANNEL_DIR_READ error_code abort w))
   \<and> new_events w (snd (s_socket_shutdown AWS_CHANNEL_DIR_READ error_code abort w)) =
       (if abort \<and> aws_socket_is_open w then [Ev_socket_shutdown] else [])
       @ (if abort \<and> aws_socket_is_open w \<and> socket_shutdown_result w = AWS_OP_ERR then []
          else [Ev_shutdown_complete AWS_CHANNEL_DIR_READ error_code abort])
   \<and> fst (s_socket_shutdown AWS_CHANNEL_DIR_READ error_code abort w) =
       (if abort \<and> aws_socket_is_open w \<and> socket_shutdown_result w = AWS_OP_ERR then AWS_OP_ERR
        else shutdown_complete_result w)"
  by (cases "socket_shutdown_result w")
     (simp_all add: s_socket_shutdown_def Let_def aws_socket_is_open_def
        aws_socket_shutdown_def aws_channel_slot_on_handler_shutdown_complete_def
        new_events_def emit_def)

text \<open>C7, witness: an abort shutdown on an open socket that closes.\<close>

theorem s_socket_shutdown_read_witness:
  "new_events world0
     (snd (s_socket_shutdown AWS_CHANNEL_DIR_READ (AWS_ERROR_OTHER 3) True world0)) =
     [Ev_socket_shutdown, Ev_shutdown_complete AWS_CHANNEL_DIR_READ (AWS_ERROR_OTHER 3) True]
   \<and> shutdown_in_progress
       (snd (s_socket_shutdown AWS_CHANNEL_DIR_READ (AWS_ERROR_OTHER 3) True world0))"
  using s_socket_shutdown_read [of "AWS_ERROR_OTHER 3" True world0]
  by (simp add: world0_def aws_socket_is_open_def)

subsection \<open>Once shutdown is in progress\<close>

lemma s_do_read_shut:
  assumes sip: "shutdown_in_progress w"
  shows "\<exists>evs. trace (s_do_read w) = trace w @ evs \<and> shutdown_in_progress (s_do_read w)
           \<and> scheduled_tasks evs = [] \<and> shutdown_codes evs = []"
proof (cases "max_to_read w = 0")
  case True
  with sip show ?thesis by (simp add: s_do_read_idle)
next
  case False
  obtain ex n_read w1 where loop: "s_do_read_loop (max_to_read w) 0 w = (ex, n_read, w1)"
    by (cases "s_do_read_loop (max_to_read w) 0 w")
  from s_do_read_events [OF False loop] sip obtain evs where
    le: "loop_events (max_to_read w) 0 ex n_read (last_error w1) evs"
    and tr: "trace (s_do_read w) = trace w @ evs" by auto
  from s_do_read_loop_frame [OF loop] sip have "shutdown_in_progress w1"
    by (simp add: same_handler_def)
  with sip have "shutdown_in_progress (s_do_read w)"
    by (simp add: s_do_read_after_loop [OF False loop])
  with le tr show ?thesis by (auto simp: loop_events_def)
qed

text \<open>One call on a handler that is shutting down.\<close>

lemma handler_step_shut:
  assumes sip: "shutdown_in_progress w"
  shows "\<exists>evs. trace (handler_step c w) = trace w @ evs
           \<and> shutdown_in_progress (handler_step c w)
           \<and> Fn_s_read_task \<notin> set (scheduled_tasks evs)
           \<and> shutdown_codes evs = write_failures [c]"
proof (cases c)
  case (On_readable_notification e)
  with sip s_do_read_shut [OF sip] show ?thesis
    by (auto simp: s_on_readable_notification_def)
next
  case (Read_task st)
  with sip s_do_read_shut [OF sip] show ?thesis
    by (auto simp: s_read_task_def)
next
  case (Increment_read_window n)
  with sip show ?thesis by (simp add: socket_increment_read_window_def)
next
  case (On_socket_write_complete e m)
  with sip show ?thesis
    by (cases m)
       (auto simp: s_on_socket_write_complete_def call_on_completion_def Let_def
          aws_channel_release_message_to_pool_def aws_channel_shutdown_def
          split: option.splits)
next
  case (Process_write_message m)
  with sip show ?thesis
    by (cases "socket_write_result w")
       (simp_all add: s_socket_process_write_message_def aws_socket_write_def)
next
  case (Shutdown d e a)
  show ?thesis
  proof (cases d)
    case AWS_CHANNEL_DIR_READ
    with Shutdown show ?thesis
      by (simp add: s_socket_shutdown_read_eq Let_def emit_def)
  next
    case AWS_CHANNEL_DIR_WRITE
    have "shutdown_codes (concat (map drained q)) = []"
         "scheduled_tasks (concat (map drained q)) = []" for q
      by (induction q) (simp_all add: drained_def split: option.splits)
    with Shutdown AWS_CHANNEL_DIR_WRITE show ?thesis
      by (simp add: s_socket_shutdown_write_eq Let_def emit_def)
  qed
next
  case (Shutdown_task st)
  with sip show ?thesis
    by (simp add: s_shutdown_task_def aws_channel_slot_on_handler_shutdown_complete_def)
next
  case (Socket_receives rs)
  with sip show ?thesis by simp
next
  case (Window_becomes n)
  with sip show ?thesis by simp
qed

lemma run_shut:
  "shutdown_in_progress w \<Longrightarrow>
     \<exists>evs. trace (run calls w) = trace w @ evs
       \<and> shutdown_in_progress (run calls w)
       \<and> Fn_s_read_task \<notin> set (scheduled_tasks evs)
       \<and> shutdown_codes evs = write_failures calls"
proof (induction calls arbitrary: w)
  case Nil
  then show ?case by simp
next
  case (Cons c cs)
  from handler_step_shut [OF Cons.prems, of c] obtain evs1 where
    1: "trace (handler_step c w) = trace w @ evs1" "shutdown_in_progress (handler_step c w)"
       "Fn_s_read_task \<notin> set (scheduled_tasks evs1)" "shutdown_codes evs1 = write_failures [c]"
    by blast
  from Cons.IH [OF 1(2)] obtain evs2 where
    2: "trace (run cs (handler_step c w)) = trace (handler_step c w) @ evs2"
       "shutdown_in_progress (run cs (handler_step c w))"
       "Fn_s_read_task \<notin> set (scheduled_tasks evs2)" "shutdown_codes evs2 = write_failures cs"
    by blast
  have "trace (run (c # cs) w) = trace w @ (evs1 @ evs2)" using 1 2 by simp
  moreover have "shutdown_codes (evs1 @ evs2) = write_failures (c # cs)"
    using 1 2 by simp
  moreover have "Fn_s_read_task \<notin> set (scheduled_tasks (evs1 @ evs2))" using 1 2 by simp
  ultimately show ?case using 2(2) by (metis run.simps(2))
qed

text \<open>
  C6: from a handler whose \<open>shutdown_in_progress\<close> is set, whatever sequence of calls
  follows (readable notifications with or without an error, read tasks, window
  increments, write completions, writes, shutdowns, shutdown tasks, new data on the
  socket, window changes), the flag stays set, no read task is scheduled, and the only
  channel shutdowns requested are those of write completions with a non-zero code: no
  readable-notification error and no read error of a drain pass requests one.
\<close>

theorem shutdown_in_progress_suppresses:
  assumes "shutdown_in_progress w"
  shows "shutdown_in_progress (run calls w)
         \<and> Fn_s_read_task \<notin> set (scheduled_tasks (new_events w (run calls w)))
         \<and> shutdown_codes (new_events w (run calls w)) = write_failures calls"
  using run_shut [OF assms, of calls] by auto

text \<open>
  C6, witness: a handler shutting down on a socket that would deliver a full chunk and
  then fail; a readable notification, a window increment, a read task and a readable
  notification with an error schedule nothing and request no shutdown.
\<close>

theorem shutdown_in_progress_suppresses_witness:
  "shutdown_in_progress world_shutting_down
   \<and> shutdown_in_progress (run calls_while_shutting_down world_shutting_down)
   \<and> Fn_s_read_task \<notin> set (scheduled_tasks
         (new_events world_shutting_down (run calls_while_shutting_down world_shutting_down)))
   \<and> shutdown_codes
         (new_events world_shutting_down (run calls_while_shutting_down world_shutting_down)) = []"
proof -
  have h: "shutdown_in_progress world_shutting_down"
    by (simp add: world_shutting_down_def world0_def)
  have "write_failures calls_while_shutting_down = []"
    by (simp add: calls_while_shutting_down_def)
  with shutdown_in_progress_suppresses [OF h, of calls_while_shutting_down] h
  show ?thesis by simp
qed

subsection \<open>Tasks and the read-message entry\<close>

text \<open>
  C8, as stated, fails: \<open>s_shutdown_task\<close> ignores its status; delivered as cancelled it
  still reports shutdown-complete for the write direction.
\<close>

theorem s_shutdown_task_cancelled_reports:
  "trace (s_shutdown_task AWS_TASK_STATUS_CANCELED world0) =
     [Ev_shutdown_complete AWS_CHANNEL_DIR_WRITE AWS_ERROR_SUCCESS False]
   \<and> trace world0 = []"
  by (simp add: s_shutdown_task_def aws_channel_slot_on_handler_shutdown_complete_def world0_def)

text \<open>
  C8, amended: the read task does its work (a drain pass) only when its status is
  run-ready and is a no-op when cancelled; the shutdown-notification task ignores its
  status and reports shutdown-complete for the write direction, with the recorded error
  code, whatever the status.
\<close>

theorem task_status_handling:
  "s_read_task AWS_TASK_STATUS_CANCELED w = w
   \<and> s_read_task AWS_TASK_STATUS_RUN_READY w = s_do_read w
   \<and> s_shutdown_task status w =
       emit (Ev_shutdown_complete AWS_CHANNEL_DIR_WRITE (shutdown_err_code w) False) w"
  by (simp add: s_read_task_def s_shutdown_task_def
        aws_channel_slot_on_handler_shutdown_complete_def)

text \<open>C8, witness: both tasks delivered as cancelled.\<close>

theorem task_status_handling_witness:
  "s_read_task AWS_TASK_STATUS_CANCELED world_full_chunk = world_full_chunk
   \<and> s_read_task AWS_TASK_STATUS_RUN_READY world_full_chunk = s_do_read world_full_chunk
   \<and> s_shutdown_task AWS_TASK_STATUS_CANCELED world_full_chunk =
       emit (Ev_shutdown_complete AWS_CHANNEL_DIR_WRITE (shutdown_err_code world_full_chunk) False)
         world_full_chunk"
  using task_status_handling [of world_full_chunk AWS_TASK_STATUS_CANCELED] by simp

text \<open>
  C9, as stated, fails: where assertions are compiled in, \<open>assert(0)\<close> stops the process
  before any error is raised.
\<close>

theorem s_socket_process_read_message_aborts:
  "s_socket_process_read_message False msg_a world0 = Aborted"
  by (simp add: s_socket_process_read_message_def)

text \<open>
  C9, amended: with assertions compiled out (\<open>NDEBUG\<close>), every call of the handler's
  \<open>process_read_message\<close> returns \<open>AWS_OP_ERR\<close> having raised
  \<open>AWS_IO_CHANNEL_ERROR_ERROR_CANT_ACCEPT_INPUT\<close>, and changes nothing but the thread's
  last error; with assertions compiled in, every call aborts at \<open>assert(0)\<close>.
\<close>

theorem s_socket_process_read_message_result:
  "s_socket_process_read_message True message w =
     Returned (AWS_OP_ERR, w\<lparr>last_error := AWS_IO_CHANNEL_ERROR_ERROR_CANT_ACCEPT_INPUT\<rparr>)
   \<and> s_socket_process_read_message False message w = Aborted"
  by (simp add: s_socket_process_read_message_def aws_raise_error_def)

text \<open>C9, witness: one call in each build.\<close>

theorem s_socket_process_read_message_witness:
  "s_socket_process_read_message True msg_a world0 =
     Returned (AWS_OP_ERR, world0\<lparr>last_error := AWS_IO_CHANNEL_ERROR_ERROR_CANT_ACCEPT_INPUT\<rparr>)
   \<and> s_socket_process_read_message False msg_b world0 = Aborted"
  using s_socket_process_read_message_result [of msg_a world0]
    s_socket_process_read_message_result [of msg_b world0] by simp

section \<open>Properties of the URI parser\<close>

lemma s_parse_authority_port_block: "same_block p (s_parse_authority_port p)"
  by (simp add: same_block_def s_parse_authority_port_def Let_def uri_raise_error_def
        split: option.splits)

lemma same_block_trans: "same_block p q \<Longrightarrow> same_block q r \<Longrightarrow> same_block p r"
  by (simp add: same_block_def)

lemma s_parse_authority_port_fields:
  "uri_str (uri (s_parse_authority_port q)) = uri_str (uri q)"
  "live_blocks (env (s_parse_authority_port q)) = live_blocks (env q)"
  using s_parse_authority_port_block [of q] by (simp_all add: same_block_def)

lemma s_parse_authority_block: "same_block p (s_parse_authority p)"
  unfolding s_parse_authority_def Let_def same_block_def
  by (simp add: s_parse_authority_port_fields uri_raise_error_def
        split: option.splits prod.splits)

lemma s_states_block: "same_block p (s_states st p)"
proof (cases st)
  case ON_SCHEME
  then show ?thesis
    by (simp add: same_block_def s_parse_scheme_def Let_def uri_raise_error_def
          split: option.splits prod.splits)
next
  case ON_AUTHORITY
  then show ?thesis by (simp add: s_parse_authority_block)
next
  case ON_PATH
  then show ?thesis
    by (simp add: same_block_def s_parse_path_def Let_def uri_raise_error_def
          split: option.splits)
next
  case ON_QUERY_STRING
  then show ?thesis by (simp add: same_block_def s_parse_query_string_def Let_def)
qed (simp_all add: same_block_def)

lemma s_init_loop_block: "same_block p (s_init_loop p)"
proof (induction p rule: s_init_loop.induct)
  case (1 p)
  show ?case
  proof (cases "state_value (state p) < state_value FINISHED")
    case True
    from "1.IH" [OF True] s_states_block [of p "state p"]
    have "same_block p (s_init_loop (s_states (state p) p))" by (rule same_block_trans [rotated])
    with True show ?thesis by (simp add: s_init_loop.simps [of p])
  next
    case False
    then show ?thesis by (simp add: s_init_loop.simps [of p] same_block_def)
  qed
qed

lemma s_init_from_uri_str_failure:
  assumes "s_init_from_uri_str u e = (AWS_OP_ERR, u', e')"
  shows "u' = zero_uri \<and>
         live_blocks e' =
           (if buf_allocator (uri_str u) \<noteq> None \<and> buffer (uri_str u) \<noteq> None
            then live_blocks e - 1 else live_blocks e)"
proof -
  let ?p = "\<lparr>uri = u, state = ON_SCHEME, str = aws_byte_cursor_from_buf (uri_str u), env = e\<rparr>"
  from s_init_loop_block [of ?p]
  have "uri_str (uri (s_init_loop ?p)) = uri_str u"
       "live_blocks (env (s_init_loop ?p)) = live_blocks e"
    by (simp_all add: same_block_def)
  with assms show ?thesis
    by (auto simp: s_init_from_uri_str_def Let_def aws_byte_buf_clean_up_def
          split: if_splits)
qed

text \<open>
  The parser does leave fields behind before it fails: on \<open>http:/x\<close> the scheme is
  already stored when the missing second slash is found.
\<close>

lemma s_init_loop_partial_scheme:
  "scheme (uri (s_init_loop
     \<lparr>uri = zero_uri\<lparr>uri_str := \<lparr>buf_len = 7, buffer = Some ''http:/x'', capacity = 7,
                                 buf_allocator = Some 1\<rparr>\<rparr>,
      state = ON_SCHEME, str = \<lparr>len = 7, ptr = In_uri_str 0\<rparr>, env = env0\<rparr>)) =
     \<lparr>len = 4, ptr = In_uri_str 0\<rparr>
   \<and> state (s_init_loop
     \<lparr>uri = zero_uri\<lparr>uri_str := \<lparr>buf_len = 7, buffer = Some ''http:/x'', capacity = 7,
                                 buf_allocator = Some 1\<rparr>\<rparr>,
      state = ON_SCHEME, str = \<lparr>len = 7, ptr = In_uri_str 0\<rparr>, env = env0\<rparr>) = ERROR"
  by code_simp

text \<open>
  The other error return of \<open>aws_uri_init_parse\<close>, which is not a parse failure: when the
  copy of the string cannot be allocated, nothing is parsed, no block is held, and the
  structure is zero except for \<open>self_size\<close> and \<open>allocator\<close>.
\<close>

lemma aws_uri_init_parse_copy_failure:
  assumes "fst (aws_byte_buf_init_copy_from_cursor (Some alloc) input e) = AWS_OP_ERR"
  shows "aws_uri_init_parse sizeof_uri alloc input e =
           (AWS_OP_ERR, zero_uri\<lparr>self_size := sizeof_uri, allocator := Some alloc\<rparr>, e)"
  using assms
  by (simp add: aws_uri_init_parse_def aws_byte_buf_init_copy_from_cursor_def Let_def
        zero_uri_def split: if_splits)

text \<open>
  C10: for every input string, when the copy of the string was made and
  \<open>aws_uri_init_parse\<close> returns an error (the parser did not reach \<open>FINISHED\<close>), the
  structure is entirely zero (scheme, authority, host name, port, path, query string,
  \<open>uri_str\<close>, \<open>self_size\<close> and \<open>allocator\<close>), and the allocator holds as many live blocks
  as before the call: the copy was released.
\<close>

theorem aws_uri_init_parse_failure:
  assumes "aws_uri_init_parse sizeof_uri alloc input e = (AWS_OP_ERR, u, e')"
    and "fst (aws_byte_buf_init_copy_from_cursor (Some alloc) input e) = AWS_OP_SUCCESS"
  shows "u = zero_uri \<and> live_blocks e' = live_blocks e"
proof (cases "input = []")
  case True
  with assms(1) have "s_init_from_uri_str
      (zero_uri\<lparr>self_size := sizeof_uri, allocator := Some alloc,
                uri_str := zero_buf\<lparr>buf_allocator := Some alloc\<rparr>\<rparr>) e = (AWS_OP_ERR, u, e')"
    by (simp add: aws_uri_init_parse_def aws_byte_buf_init_copy_from_cursor_def Let_def)
  from s_init_from_uri_str_failure [OF this] show ?thesis by (simp add: zero_buf_def)
next
  case False
  with assms(2) have ok: "acquire_succeeds e"
    by (simp add: aws_byte_buf_init_copy_from_cursor_def split: if_splits)
  with False assms(1) have "s_init_from_uri_str
      (zero_uri\<lparr>self_size := sizeof_uri, allocator := Some alloc,
                uri_str := \<lparr>buf_len = length input, buffer = Some input,
                             capacity = length input, buf_allocator = Some alloc\<rparr>\<rparr>)
      (e\<lparr>live_blocks := Suc (live_blocks e)\<rparr>) = (AWS_OP_ERR, u, e')"
    by (simp add: aws_uri_init_parse_def aws_byte_buf_init_copy_from_cursor_def Let_def)
  from s_init_from_uri_str_failure [OF this] show ?thesis by simp
qed

text \<open>
  C10, witness: \<open>http:/x\<close> is copied, its scheme is parsed, the parse fails at the missing
  slash; the result is the zero structure and no block stays live.
\<close>

theorem aws_uri_init_parse_failure_witness:
  "fst (aws_uri_init_parse 152 1 ''http:/x'' env0) = AWS_OP_ERR
   \<and> fst (aws_byte_buf_init_copy_from_cursor (Some 1) ''http:/x'' env0) = AWS_OP_SUCCESS
   \<and> fst (snd (aws_uri_init_parse 152 1 ''http:/x'' env0)) = zero_uri
   \<and> live_blocks (snd (snd (aws_uri_init_parse 152 1 ''http:/x'' env0))) = live_blocks env0"
proof -
  have e: "fst (aws_uri_init_parse 152 1 ''http:/x'' env0) = AWS_OP_ERR"
    by code_simp
  have c: "fst (aws_byte_buf_init_copy_from_cursor (Some 1) ''http:/x'' env0) = AWS_OP_SUCCESS"
    by (simp add: aws_byte_buf_init_copy_from_cursor_def env0_def)
  have r: "aws_uri_init_parse 152 1 ''http:/x'' env0 =
      (AWS_OP_ERR, fst (snd (aws_uri_init_parse 152 1 ''http:/x'' env0)),
       snd (snd (aws_uri_init_parse 152 1 ''http:/x'' env0)))"
    using e by (metis prod.collapse)
  from aws_uri_init_parse_failure [OF r c] e c show ?thesis by simp
qed

end
